theory Spec2Isabelle
  imports Complex_Main
begin

section \<open>The WebSocket manager of the dashboard (static/js/socket.js)\<close>

text \<open>
  The class \<^verbatim>\<open>SocketManager\<close> is embedded as a record of its fields and one HOL
  function per method. A method takes the manager and returns an outcome (it returned, or
  an exception left it) together with the manager as the method left it. Everything a
  method does to the world outside the object (console output, calls into the socket.io
  client, timers, HTTP requests, calls of registered callbacks) is appended to the field
  \<open>trace\<close>, oldest first.

  What the source leaves to its surroundings is a parameter, the record \<open>env\<close>:
  what a registered callback does when it is called, whether a call into the socket.io
  client throws, the number \<^verbatim>\<open>Math.random()\<close> returns, and the rounding of the
  floating-point arithmetic.

  A registered callback is a handle: \<^verbatim>\<open>indexOf\<close> compares function references, and
  handles are compared the same way. When it is called, a callback may call back into the
  manager to register and unregister callbacks (\<open>callback_body\<close>: its calls of
  \<^verbatim>\<open>on\<close> and \<^verbatim>\<open>off\<close>, in order), and then returns or throws
  (\<open>callback_throws\<close>). Other calls back into the manager are not modelled.

  A JavaScript number is a double. It is modelled by the real it denotes, and every
  arithmetic operation of the source by the exact operation followed by the rounding
  \<open>fl\<close> of the environment, so that a property proved for every monotone rounding that
  leaves doubles unchanged holds of the doubles. Attempt counts are naturals.
\<close>

subsection \<open>Data\<close>

type_synonym callback = nat

datatype payload =
    Undefined
  | ConnectionChange bool "string option"
  | ErrorInfo "string option"
  | AttemptInfo nat
  | Json string

datatype registry_call = CallOn string callback | CallOff string callback

datatype transport_call =
    Io
  | SocketOn string
  | SocketConnect
  | SocketEmit string payload
  | SocketDisconnect

datatype message =
    Connecting
  | ConnectionFailed
  | SocketConnected
  | SocketDisconnected string
  | SocketConnectionError string
  | Reconnected nat
  | TransportReconnectAttempt nat
  | ReconnectionError
  | ReconnectionFailed
  | BrowserOnline
  | BrowserOffline
  | MaxAttemptsReached
  | SchedulingReconnect real
  | ReconnectionAttempt nat nat
  | SettingUpPolling
  | PollingFailed
  | CallbackFailed string

datatype effect =
    ConsoleLog message
  | ConsoleError message
  | Transport transport_call
  | Listen string
  | Dispatch string payload
  | Invoke callback payload
  | SetTimeout real
  | SetInterval nat nat
  | ClearInterval nat
  | Fetch string

datatype exn = TypeError | TransportThrew | CallbackThrew | FetchFailed | JsonFailed

text \<open>
  What an awaited \<^verbatim>\<open>fetch\<close> gives: the promise rejects, or it resolves to a response
  with its \<^verbatim>\<open>ok\<close> flag and what \<^verbatim>\<open>response.json()\<close> gives (\<open>None\<close> when that
  promise rejects).
\<close>

datatype 'a fetched = FetchRejected | FetchResolved bool "'a option"

datatype outcome = Normal | Raised exn

record SocketManager =
  socket :: bool
  reconnectAttempts :: nat
  maxReconnectAttempts :: nat
  reconnectDelay :: real
  isConnected :: bool
  eventCallbacks :: "string \<Rightarrow> callback list option"
  pollingInterval :: "nat option"
  trace :: "effect list"
  pendingReconnects :: nat
  activeIntervals :: "nat list"
  nextTimerId :: nat

text \<open>
  In the trace, \<open>Dispatch\<close> marks a call of \<^verbatim>\<open>triggerEvent\<close> with its event name and
  payload, and \<open>Invoke\<close> a call of a registered callback; the other effects are calls
  of the console, the socket.io client and the browser.
  \<open>socket\<close> says whether \<^verbatim>\<open>this.socket\<close> holds a transport (it is \<^verbatim>\<open>null\<close>
  until \<^verbatim>\<open>io(...)\<close> has returned one). The last three fields belong to the browser:
  the number of reconnect timeouts set and not yet fired (their callbacks are all the same
  closure), the intervals set and not cleared, and the next timer id.
\<close>

record env =
  callback_body :: "callback \<Rightarrow> payload \<Rightarrow> registry_call list"
  callback_throws :: "callback \<Rightarrow> payload \<Rightarrow> bool"
  transport_throws :: "transport_call \<Rightarrow> bool"
  random :: real
  fl :: "real \<Rightarrow> real"

type_synonym 's stmt = "'s \<Rightarrow> outcome \<times> 's"

type_synonym prog = "SocketManager stmt"

subsection \<open>Control flow\<close>

text \<open>
  \<open>seq p q\<close> is \<^verbatim>\<open>p; q\<close>: an exception leaving \<open>p\<close> skips \<open>q\<close> and keeps what
  \<open>p\<close> had done. \<open>try_catch p h\<close> is \<^verbatim>\<open>try { p } catch (error) { h }\<close>.
\<close>

definition seq :: "'s stmt \<Rightarrow> 's stmt \<Rightarrow> 's stmt" where
  "seq p q s = (case p s of (Normal, s') \<Rightarrow> q s' | (Raised e, s') \<Rightarrow> (Raised e, s'))"

definition try_catch :: "'s stmt \<Rightarrow> (exn \<Rightarrow> 's stmt) \<Rightarrow> 's stmt" where
  "try_catch p h s = (case p s of (Normal, s') \<Rightarrow> (Normal, s') | (Raised e, s') \<Rightarrow> h e s')"

definition skip :: "'s stmt" where
  "skip s = (Normal, s)"

definition throw :: "exn \<Rightarrow> 's stmt" where
  "throw x s = (Raised x, s)"

definition assign :: "('s \<Rightarrow> 's) \<Rightarrow> 's stmt" where
  "assign f s = (Normal, f s)"

definition record_effect :: "effect \<Rightarrow> SocketManager \<Rightarrow> SocketManager" where
  "record_effect x s = s\<lparr>trace := trace s @ [x]\<rparr>"

definition perform :: "effect \<Rightarrow> prog" where
  "perform x s = (Normal, record_effect x s)"

definition call_transport :: "env \<Rightarrow> transport_call \<Rightarrow> prog" where
  "call_transport e c s =
     (if transport_throws e c then Raised TransportThrew else Normal, record_effect (Transport c) s)"

text \<open>
  \<^verbatim>\<open>Array.prototype.forEach\<close> on an array nothing else can reach (a literal): one call
  for each element.
\<close>

fun forEach :: "('a \<Rightarrow> 's stmt) \<Rightarrow> 'a list \<Rightarrow> 's stmt" where
  "forEach f [] s = (Normal, s)"
| "forEach f (x # xs) s = seq (f x) (forEach f xs) s"

text \<open>
  \<^verbatim>\<open>Array.prototype.forEach\<close> on an array that the calls themselves may change:
  \<open>array s\<close> is what the array holds in the state \<open>s\<close>. The length is read once,
  before the first call (\<open>n\<close> indices are left to visit, from \<open>k\<close> on); each index
  is looked up when its turn comes, and an index that is no longer there is passed over.
\<close>

fun forEach_live :: "('s \<Rightarrow> 'a list) \<Rightarrow> ('a \<Rightarrow> 's stmt) \<Rightarrow> nat \<Rightarrow> nat \<Rightarrow> 's stmt" where
  "forEach_live array f k 0 s = (Normal, s)"
| "forEach_live array f k (Suc n) s =
     seq (\<lambda>s. if k < length (array s) then f (array s ! k) s else (Normal, s))
         (forEach_live array f (Suc k) n) s"

subsection \<open>Event management: on, off, triggerEvent\<close>

definition on :: "string \<Rightarrow> callback \<Rightarrow> SocketManager \<Rightarrow> SocketManager" where
  "on event cb s =
     (let m = (if eventCallbacks s event = None then (eventCallbacks s)(event \<mapsto> [])
               else eventCallbacks s)
      in case m event of
           None \<Rightarrow> s\<lparr>eventCallbacks := m\<rparr>
         | Some callbacks \<Rightarrow> s\<lparr>eventCallbacks := m(event \<mapsto> callbacks @ [cb])\<rparr>)"

fun indexOf :: "'a list \<Rightarrow> 'a \<Rightarrow> int" where
  "indexOf [] x = - 1"
| "indexOf (y # ys) x =
     (if y = x then 0 else (let i = indexOf ys x in if i = - 1 then - 1 else i + 1))"

definition splice1 :: "'a list \<Rightarrow> int \<Rightarrow> 'a list" where
  "splice1 xs i = take (nat i) xs @ drop (nat i + 1) xs"

definition off :: "string \<Rightarrow> callback \<Rightarrow> SocketManager \<Rightarrow> SocketManager" where
  "off event cb s =
     (case eventCallbacks s event of
        None \<Rightarrow> s
      | Some callbacks \<Rightarrow>
          (let index = indexOf callbacks cb
           in if index > - 1
              then s\<lparr>eventCallbacks := (eventCallbacks s)(event \<mapsto> splice1 callbacks index)\<rparr>
              else s))"

text \<open>The callbacks registered for an event: the array \<^verbatim>\<open>eventCallbacks.get(event)\<close>.\<close>

definition registered :: "SocketManager \<Rightarrow> string \<Rightarrow> callback list" where
  "registered s event = (case eventCallbacks s event of None \<Rightarrow> [] | Some callbacks \<Rightarrow> callbacks)"

text \<open>The calls back into the manager that a callback makes, in order.\<close>

fun apply_calls :: "registry_call list \<Rightarrow> SocketManager \<Rightarrow> SocketManager" where
  "apply_calls [] s = s"
| "apply_calls (CallOn event cb # rest) s = apply_calls rest (on event cb s)"
| "apply_calls (CallOff event cb # rest) s = apply_calls rest (off event cb s)"

text \<open>\<^verbatim>\<open>callback(data)\<close>: the callback runs, then returns or throws.\<close>

definition invoke :: "env \<Rightarrow> callback \<Rightarrow> payload \<Rightarrow> prog" where
  "invoke e cb d s =
     (if callback_throws e cb d then Raised CallbackThrew else Normal,
      apply_calls (callback_body e cb d) (record_effect (Invoke cb d) s))"

definition guarded :: "env \<Rightarrow> string \<Rightarrow> payload \<Rightarrow> callback \<Rightarrow> prog" where
  "guarded e event d cb =
     try_catch (invoke e cb d) (\<lambda>error. perform (ConsoleError (CallbackFailed event)))"

text \<open>
  \<^verbatim>\<open>triggerEvent\<close> iterates the stored array itself, the one \<^verbatim>\<open>on\<close> pushes to and
  \<^verbatim>\<open>off\<close> splices.
\<close>

definition triggerEvent :: "env \<Rightarrow> string \<Rightarrow> payload \<Rightarrow> prog" where
  "triggerEvent e event d s =
     (let s1 = record_effect (Dispatch event d) s
      in case eventCallbacks s1 event of
           None \<Rightarrow> (Normal, s1)
         | Some callbacks \<Rightarrow>
             forEach_live (\<lambda>s. registered s event) (guarded e event d) 0 (length callbacks) s1)"

subsection \<open>Browser timers\<close>

definition setTimeout :: "real \<Rightarrow> prog" where
  "setTimeout delay s =
     (Normal, (record_effect (SetTimeout delay) s)
        \<lparr>pendingReconnects := pendingReconnects s + 1, nextTimerId := nextTimerId s + 1\<rparr>)"

definition clearInterval :: "nat \<Rightarrow> prog" where
  "clearInterval i s =
     (Normal, (record_effect (ClearInterval i) s)\<lparr>activeIntervals := removeAll i (activeIntervals s)\<rparr>)"

subsection \<open>Fallback: polling\<close>

text \<open>
  \<^verbatim>\<open>pollForUpdates\<close> is an async function; the outcome of its awaited \<^verbatim>\<open>fetch\<close> is
  a parameter, and the function runs to its end in one step.
\<close>

definition pollForUpdates :: "env \<Rightarrow> string fetched \<Rightarrow> prog" where
  "pollForUpdates e r =
     try_catch
       (seq (perform (Fetch ''/api/poll''))
            (case r of
               FetchRejected \<Rightarrow> throw FetchFailed
             | FetchResolved ok body \<Rightarrow>
                 if ok
                 then (case body of
                         None \<Rightarrow> throw JsonFailed
                       | Some data \<Rightarrow> triggerEvent e ''polling_update'' (Json data))
                 else skip))
       (\<lambda>error. perform (ConsoleError PollingFailed))"

text \<open>The closure given to \<^verbatim>\<open>setInterval\<close>; \<open>pollInterval\<close> is the id it captured.\<close>

definition pollTick :: "env \<Rightarrow> nat \<Rightarrow> string fetched \<Rightarrow> prog" where
  "pollTick e pollInterval r s =
     (if isConnected s then clearInterval pollInterval s else pollForUpdates e r s)"

definition setupPollingFallback :: "env \<Rightarrow> prog" where
  "setupPollingFallback e =
     seq (perform (ConsoleLog SettingUpPolling))
    (seq (triggerEvent e ''polling_started'' Undefined)
         (\<lambda>s. let pollInterval = nextTimerId s
              in (Normal, (record_effect (SetInterval pollInterval 5000) s)
                    \<lparr>activeIntervals := activeIntervals s @ [pollInterval],
                     nextTimerId := nextTimerId s + 1,
                     pollingInterval := Some pollInterval\<rparr>)))"

subsection \<open>Reconnection logic\<close>

text \<open>
  \<^verbatim>\<open>Math.pow\<close>, the two products and the sum each round their exact result;
  \<^verbatim>\<open>Math.min\<close> does not round.
\<close>

definition calculateReconnectDelay :: "env \<Rightarrow> SocketManager \<Rightarrow> real" where
  "calculateReconnectDelay e s =
     (let baseDelay = min (fl e (reconnectDelay s * fl e (1.5 ^ reconnectAttempts s))) 30000;
          jitter = fl e (random e * 1000)
      in fl e (baseDelay + jitter))"

definition handleReconnectFailed :: "env \<Rightarrow> prog" where
  "handleReconnectFailed e =
     seq (triggerEvent e ''reconnect_failed'' Undefined) (setupPollingFallback e)"

definition scheduleReconnect :: "env \<Rightarrow> prog" where
  "scheduleReconnect e s =
     (if reconnectAttempts s \<ge> maxReconnectAttempts s
      then seq (perform (ConsoleLog MaxAttemptsReached)) (handleReconnectFailed e) s
      else (let delay = calculateReconnectDelay e s
            in seq (perform (ConsoleLog (SchedulingReconnect delay))) (setTimeout delay) s))"

definition handleConnectionError :: "env \<Rightarrow> string option \<Rightarrow> prog" where
  "handleConnectionError e error =
     seq (triggerEvent e ''connection_error'' (ErrorInfo error)) (scheduleReconnect e)"

definition socket_events :: "string list" where
  "socket_events =
     [''connect'', ''disconnect'', ''connect_error'', ''reconnect'', ''reconnect_attempt'',
      ''reconnect_error'', ''reconnect_failed'', ''stats_update'', ''activity_update'',
      ''command_result'', ''system_alert'']"

text \<open>A method call on \<^verbatim>\<open>this.socket\<close>: a TypeError when the field is \<^verbatim>\<open>null\<close>.\<close>

definition on_socket :: "env \<Rightarrow> transport_call \<Rightarrow> prog" where
  "on_socket e c s = (if socket s then call_transport e c s else (Raised TypeError, s))"

definition setupSocketEvents :: "env \<Rightarrow> prog" where
  "setupSocketEvents e = forEach (\<lambda>name. on_socket e (SocketOn name)) socket_events"

definition connect :: "env \<Rightarrow> prog" where
  "connect e =
     try_catch
       (seq (perform (ConsoleLog Connecting))
       (seq (call_transport e Io)
       (seq (assign (\<lambda>s. s\<lparr>socket := True\<rparr>))
            (setupSocketEvents e))))
       (\<lambda>error. seq (perform (ConsoleError ConnectionFailed)) (handleConnectionError e None))"

definition attemptReconnect :: "env \<Rightarrow> prog" where
  "attemptReconnect e s =
     (if isConnected s then (Normal, s)
      else seq (assign (\<lambda>s. s\<lparr>reconnectAttempts := reconnectAttempts s + 1\<rparr>))
          (seq (\<lambda>s. perform (ConsoleLog (ReconnectionAttempt (reconnectAttempts s)
                                             (maxReconnectAttempts s))) s)
               (\<lambda>s. if socket s then call_transport e SocketConnect s else connect e s)) s)"

subsection \<open>Event handlers\<close>

definition handleConnect :: "env \<Rightarrow> prog" where
  "handleConnect e =
     seq (assign (\<lambda>s. s\<lparr>isConnected := True\<rparr>))
    (seq (assign (\<lambda>s. s\<lparr>reconnectAttempts := 0\<rparr>))
    (seq (triggerEvent e ''connection_change'' (ConnectionChange True None))
         (on_socket e (SocketEmit ''get_initial_data'' Undefined))))"

definition handleDisconnect :: "env \<Rightarrow> string \<Rightarrow> prog" where
  "handleDisconnect e reason =
     seq (assign (\<lambda>s. s\<lparr>isConnected := False\<rparr>))
    (seq (triggerEvent e ''connection_change'' (ConnectionChange False (Some reason)))
         (if reason \<noteq> ''io client disconnect'' then scheduleReconnect e else skip))"

definition handleReconnect :: "env \<Rightarrow> nat \<Rightarrow> prog" where
  "handleReconnect e attempt =
     seq (assign (\<lambda>s. s\<lparr>reconnectAttempts := 0\<rparr>))
         (triggerEvent e ''reconnect'' (AttemptInfo attempt))"

definition handleReconnectAttempt :: "env \<Rightarrow> nat \<Rightarrow> prog" where
  "handleReconnectAttempt e attempt =
     seq (assign (\<lambda>s. s\<lparr>reconnectAttempts := attempt\<rparr>))
         (triggerEvent e ''reconnect_attempt'' (AttemptInfo attempt))"

definition handleOffline :: "env \<Rightarrow> prog" where
  "handleOffline e = triggerEvent e ''offline'' Undefined"

subsection \<open>Public methods and cleanup\<close>

definition emit :: "env \<Rightarrow> string \<Rightarrow> payload \<Rightarrow> prog" where
  "emit e event d s =
     (if isConnected s \<and> socket s then call_transport e (SocketEmit event d) s else (Normal, s))"

definition disconnect :: "env \<Rightarrow> prog" where
  "disconnect e =
     seq (\<lambda>s. if socket s then call_transport e SocketDisconnect s else (Normal, s))
         (assign (\<lambda>s. s\<lparr>isConnected := False\<rparr>))"

definition getConnectionStatus :: "SocketManager \<Rightarrow> bool" where
  "getConnectionStatus s = isConnected s"

definition getReconnectAttempts :: "SocketManager \<Rightarrow> nat" where
  "getReconnectAttempts s = reconnectAttempts s"

definition destroy :: "env \<Rightarrow> prog" where
  "destroy e =
     seq (disconnect e)
    (seq (assign (\<lambda>s. s\<lparr>eventCallbacks := Map.empty\<rparr>))
         (\<lambda>s. case pollingInterval s of
                None \<Rightarrow> (Normal, s)
              | Some i \<Rightarrow> if i \<noteq> 0 then clearInterval i s else (Normal, s)))"

subsection \<open>Construction\<close>

definition setupEventListeners :: prog where
  "setupEventListeners =
     forEach (\<lambda>name. perform (Listen name)) [''online'', ''offline'', ''visibilitychange'']"

definition init :: "env \<Rightarrow> prog" where
  "init e = seq setupEventListeners (connect e)"

text \<open>The fields as the constructor sets them, in a browser that has set no timer yet.\<close>

definition fresh :: SocketManager where
  "fresh =
     \<lparr>socket = False, reconnectAttempts = 0, maxReconnectAttempts = 10,
      reconnectDelay = 1000, isConnected = False, eventCallbacks = Map.empty,
      pollingInterval = None, trace = [], pendingReconnects = 0,
      activeIntervals = [], nextTimerId = 1\<rparr>"

definition new_SocketManager :: "env \<Rightarrow> outcome \<times> SocketManager" where
  "new_SocketManager e = init e fresh"

text \<open>
  An environment in which no callback calls back or throws, no call of the transport
  throws, \<^verbatim>\<open>Math.random()\<close> returns 0 and the arithmetic is exact.
\<close>

definition quiet :: env where
  "quiet = \<lparr>callback_body = (\<lambda>cb d. []), callback_throws = (\<lambda>cb d. False),
            transport_throws = (\<lambda>c. False), random = 0, fl = (\<lambda>x. x)\<rparr>"

subsection \<open>What happens to a manager: the listeners and timers it registered\<close>

text \<open>
  Each input is one turn of the browser's event loop: an event of the transport (the
  handlers of \<^verbatim>\<open>setupSocketEvents\<close>), of the window or document (the handlers of
  \<^verbatim>\<open>setupEventListeners\<close>), or a timer set by the manager firing. A reconnect timeout
  fires only while one is pending, an interval only while it is active. An exception that
  leaves a handler goes to the browser; the manager stays as the handler left it, which is
  what \<open>step\<close> returns.
\<close>

datatype input =
    OnConnect
  | OnDisconnect string
  | OnConnectError string
  | OnReconnect nat
  | OnReconnectAttempt nat
  | OnReconnectError
  | OnReconnectFailed
  | OnData string string
  | Online
  | Offline
  | VisibilityChange bool
  | ReconnectTimer
  | PollTimer nat "string fetched"

fun handler :: "env \<Rightarrow> input \<Rightarrow> prog" where
  "handler e OnConnect = seq (perform (ConsoleLog SocketConnected)) (handleConnect e)"
| "handler e (OnDisconnect reason) =
     seq (perform (ConsoleLog (SocketDisconnected reason))) (handleDisconnect e reason)"
| "handler e (OnConnectError error) =
     seq (perform (ConsoleError (SocketConnectionError error))) (handleConnectionError e (Some error))"
| "handler e (OnReconnect attempt) =
     seq (perform (ConsoleLog (Reconnected attempt))) (handleReconnect e attempt)"
| "handler e (OnReconnectAttempt attempt) =
     seq (perform (ConsoleLog (TransportReconnectAttempt attempt))) (handleReconnectAttempt e attempt)"
| "handler e OnReconnectError = perform (ConsoleError ReconnectionError)"
| "handler e OnReconnectFailed =
     seq (perform (ConsoleError ReconnectionFailed)) (handleReconnectFailed e)"
| "handler e (OnData name data) =
     (if name \<in> set [''stats_update'', ''activity_update'', ''command_result'', ''system_alert'']
      then triggerEvent e name (Json data) else skip)"
| "handler e Online = seq (perform (ConsoleLog BrowserOnline)) (attemptReconnect e)"
| "handler e Offline = seq (perform (ConsoleLog BrowserOffline)) (handleOffline e)"
| "handler e (VisibilityChange hidden) =
     (\<lambda>s. if \<not> hidden \<and> \<not> isConnected s then attemptReconnect e s else (Normal, s))"
| "handler e ReconnectTimer =
     (\<lambda>s. if pendingReconnects s = 0 then (Normal, s)
          else attemptReconnect e (s\<lparr>pendingReconnects := pendingReconnects s - 1\<rparr>))"
| "handler e (PollTimer i r) =
     (\<lambda>s. if i \<in> set (activeIntervals s) then pollTick e i r s else (Normal, s))"

definition step :: "env \<times> input \<Rightarrow> SocketManager \<Rightarrow> SocketManager" where
  "step ei s = snd (handler (fst ei) (snd ei) s)"

fun run :: "(env \<times> input) list \<Rightarrow> SocketManager \<Rightarrow> SocketManager" where
  "run [] s = s"
| "run (ei # rest) s = run rest (step ei s)"

subsection \<open>Observations on a trace\<close>

definition dispatched :: "string \<Rightarrow> effect list \<Rightarrow> nat" where
  "dispatched event tr = length (filter (\<lambda>x. case x of Dispatch ev d \<Rightarrow> ev = event | _ \<Rightarrow> False) tr)"

definition intervals_set :: "effect list \<Rightarrow> nat" where
  "intervals_set tr = length (filter (\<lambda>x. case x of SetInterval i ms \<Rightarrow> True | _ \<Rightarrow> False) tr)"

definition timeouts_set :: "effect list \<Rightarrow> real list" where
  "timeouts_set tr = concat (map (\<lambda>x. case x of SetTimeout delay \<Rightarrow> [delay] | _ \<Rightarrow> []) tr)"

definition invoked :: "effect list \<Rightarrow> (callback \<times> payload) list" where
  "invoked tr = concat (map (\<lambda>x. case x of Invoke cb d \<Rightarrow> [(cb, d)] | _ \<Rightarrow> []) tr)"

definition transport_calls :: "effect list \<Rightarrow> transport_call list" where
  "transport_calls tr = concat (map (\<lambda>x. case x of Transport c \<Rightarrow> [c] | _ \<Rightarrow> []) tr)"

definition fetches :: "effect list \<Rightarrow> string list" where
  "fetches tr = concat (map (\<lambda>x. case x of Fetch url \<Rightarrow> [url] | _ \<Rightarrow> []) tr)"

definition callback_errors :: "effect list \<Rightarrow> string list" where
  "callback_errors tr =
     concat (map (\<lambda>x. case x of ConsoleError (CallbackFailed ev) \<Rightarrow> [ev] | _ \<Rightarrow> []) tr)"

text \<open>What a method appended to the trace of the manager it started from.\<close>

definition added :: "SocketManager \<Rightarrow> SocketManager \<Rightarrow> effect list" where
  "added s s' = drop (length (trace s)) (trace s')"

section \<open>The dashboard (static/js/script.js): executing a command\<close>

text \<open>
  Of \<^verbatim>\<open>MuseBotDashboard\<close> the command execution reads the field \<^verbatim>\<open>isConnected\<close>
  (here \<open>connected\<close>) and acts on the page: \<open>hasContainer\<close> says whether the element
  \<^verbatim>\<open>notification-container\<close> exists, and \<open>page\<close> lists what was done, oldest first.
\<close>

text \<open>
  What \<^verbatim>\<open>icons[type] || 'info-circle'\<close> gives: the name of an icon, or, for a key that
  the object literal inherits from \<^verbatim>\<open>Object.prototype\<close>, the inherited member.
\<close>

datatype icon = IconName string | Inherited string

datatype page_effect =
    HttpPost string string
  | LogError string
  | CreateContainer
  | AppendNotification string icon string
  | RemoveAfter nat

record command_result =
  message :: string
  success :: bool

record MuseBotDashboard =
  connected :: bool
  hasContainer :: bool
  page :: "page_effect list"

definition act :: "page_effect \<Rightarrow> MuseBotDashboard stmt" where
  "act x d = (Normal, d\<lparr>page := page d @ [x]\<rparr>)"

definition object_prototype_keys :: "string list" where
  "object_prototype_keys =
     [''constructor'', ''__proto__'', ''hasOwnProperty'', ''isPrototypeOf'',
      ''propertyIsEnumerable'', ''toLocaleString'', ''toString'', ''valueOf'',
      ''__defineGetter__'', ''__defineSetter__'', ''__lookupGetter__'', ''__lookupSetter__'']"

definition getNotificationIcon :: "string \<Rightarrow> icon" where
  "getNotificationIcon type =
     (if type = ''success'' then IconName ''check-circle''
      else if type = ''error'' then IconName ''exclamation-circle''
      else if type = ''warning'' then IconName ''exclamation-triangle''
      else if type = ''info'' then IconName ''info-circle''
      else if type \<in> set object_prototype_keys then Inherited type
      else IconName ''info-circle'')"

definition showNotification :: "string \<Rightarrow> string \<Rightarrow> MuseBotDashboard stmt" where
  "showNotification msg type =
     seq (\<lambda>d. if \<not> hasContainer d
              then seq (act CreateContainer) (assign (\<lambda>d. d\<lparr>hasContainer := True\<rparr>)) d
              else (Normal, d))
    (seq (act (AppendNotification type (getNotificationIcon type) msg))
         (act (RemoveAfter 5000)))"

text \<open>
  \<^verbatim>\<open>executeCommand\<close> is an async function: \<open>Normal\<close> is its promise fulfilled,
  \<open>Raised\<close> its promise rejected. The outcome of the awaited \<^verbatim>\<open>fetch\<close> is a parameter.
\<close>

definition executeCommand :: "command_result fetched \<Rightarrow> string \<Rightarrow> MuseBotDashboard stmt" where
  "executeCommand r command d =
     (if \<not> connected d then showNotification ''Not connected to bot'' ''error'' d
      else try_catch
             (seq (act (HttpPost ''/api/execute'' command))
                  (case r of
                     FetchRejected \<Rightarrow> throw FetchFailed
                   | FetchResolved ok body \<Rightarrow>
                       (case body of
                          None \<Rightarrow> throw JsonFailed
                        | Some data \<Rightarrow>
                            showNotification (message data)
                              (if success data then ''success'' else ''error''))))
             (\<lambda>error. seq (act (LogError ''Command execution failed:''))
                           (showNotification ''Failed to execute command'' ''error'')) d)"

section \<open>Definitions used to state the properties\<close>

subsection \<open>What a dispatch and a poll append to the trace\<close>

text \<open>
  The registry as a map, and \<^verbatim>\<open>on\<close>, \<^verbatim>\<open>off\<close> and a callback's calls on it:
  what these do to the field \<open>eventCallbacks\<close>, the only field they touch.
\<close>

type_synonym registry = "string \<Rightarrow> callback list option"

definition entries :: "registry \<Rightarrow> string \<Rightarrow> callback list" where
  "entries m event = (case m event of None \<Rightarrow> [] | Some callbacks \<Rightarrow> callbacks)"

definition on_map :: "string \<Rightarrow> callback \<Rightarrow> registry \<Rightarrow> registry" where
  "on_map event cb m = m(event \<mapsto> entries m event @ [cb])"

definition off_map :: "string \<Rightarrow> callback \<Rightarrow> registry \<Rightarrow> registry" where
  "off_map event cb m =
     (case m event of
        None \<Rightarrow> m
      | Some callbacks \<Rightarrow>
          if indexOf callbacks cb > - 1 then m(event \<mapsto> splice1 callbacks (indexOf callbacks cb))
          else m)"

fun calls_map :: "registry_call list \<Rightarrow> registry \<Rightarrow> registry" where
  "calls_map [] m = m"
| "calls_map (CallOn event cb # rest) m = calls_map rest (on_map event cb m)"
| "calls_map (CallOff event cb # rest) m = calls_map rest (off_map event cb m)"

text \<open>
  The calls of the callbacks during one dispatch over the live array, from the index
  \<open>k\<close> on with \<open>n\<close> indices left, each throwing callback followed by its line on the
  error console, and the registry the dispatch leaves.
\<close>

fun live :: "env \<Rightarrow> string \<Rightarrow> payload \<Rightarrow> nat \<Rightarrow> nat \<Rightarrow> registry \<Rightarrow> effect list \<times> registry" where
  "live e event d k 0 m = ([], m)"
| "live e event d k (Suc n) m =
     (if k < length (entries m event)
      then (let cb = entries m event ! k;
                r = live e event d (Suc k) n (calls_map (callback_body e cb d) m)
            in (Invoke cb d #
                (if callback_throws e cb d then [ConsoleError (CallbackFailed event)] else []) @ fst r,
                snd r))
      else live e event d (Suc k) n m)"

text \<open>
  With the mark of the dispatch in front, what \<^verbatim>\<open>triggerEvent\<close> appends to the trace
  of a manager whose registry is \<open>m\<close>, and the registry it leaves.
\<close>

definition dispatch_effects :: "env \<Rightarrow> registry \<Rightarrow> string \<Rightarrow> payload \<Rightarrow> effect list" where
  "dispatch_effects e m event d =
     Dispatch event d # (case m event of None \<Rightarrow> []
                         | Some callbacks \<Rightarrow> fst (live e event d 0 (length callbacks) m))"

definition registry_after :: "env \<Rightarrow> registry \<Rightarrow> string \<Rightarrow> payload \<Rightarrow> registry" where
  "registry_after e m event d =
     (case m event of None \<Rightarrow> m | Some callbacks \<Rightarrow> snd (live e event d 0 (length callbacks) m))"

text \<open>The same for \<^verbatim>\<open>handleReconnectFailed\<close>; \<open>i\<close> is the id of the interval it sets.\<close>

definition fallback_effects :: "env \<Rightarrow> registry \<Rightarrow> nat \<Rightarrow> effect list" where
  "fallback_effects e m i =
     dispatch_effects e m ''reconnect_failed'' Undefined @
     ConsoleLog SettingUpPolling #
     dispatch_effects e (registry_after e m ''reconnect_failed'' Undefined) ''polling_started'' Undefined @
     [SetInterval i 5000]"

definition fallback_registry :: "env \<Rightarrow> registry \<Rightarrow> registry" where
  "fallback_registry e m =
     registry_after e (registry_after e m ''reconnect_failed'' Undefined) ''polling_started'' Undefined"

text \<open>The same for \<^verbatim>\<open>pollForUpdates\<close>.\<close>

definition poll_effects :: "env \<Rightarrow> registry \<Rightarrow> string fetched \<Rightarrow> effect list" where
  "poll_effects e m r =
     Fetch ''/api/poll'' #
     (case r of
        FetchRejected \<Rightarrow> [ConsoleError PollingFailed]
      | FetchResolved ok body \<Rightarrow>
          if ok then (case body of None \<Rightarrow> [ConsoleError PollingFailed]
                              | Some data \<Rightarrow> dispatch_effects e m ''polling_update'' (Json data))
          else [])"

definition poll_registry :: "env \<Rightarrow> registry \<Rightarrow> string fetched \<Rightarrow> registry" where
  "poll_registry e m r =
     (case r of
        FetchRejected \<Rightarrow> m
      | FetchResolved ok body \<Rightarrow>
          if ok then (case body of None \<Rightarrow> m
                              | Some data \<Rightarrow> registry_after e m ''polling_update'' (Json data))
          else m)"

text \<open>The fetch resolved, the response is ok and its body parsed.\<close>

definition poll_succeeded :: "string fetched \<Rightarrow> bool" where
  "poll_succeeded r = (case r of FetchResolved ok body \<Rightarrow> ok \<and> body \<noteq> None | FetchRejected \<Rightarrow> False)"

text \<open>The console lines of \<^verbatim>\<open>scheduleReconnect\<close>: one for each time it ran.\<close>

definition schedule_logs :: "effect list \<Rightarrow> message list" where
  "schedule_logs tr =
     concat (map (\<lambda>x. case x of ConsoleLog MaxAttemptsReached \<Rightarrow> [MaxAttemptsReached]
                            | ConsoleLog (SchedulingReconnect delay) \<Rightarrow> [SchedulingReconnect delay]
                            | _ \<Rightarrow> []) tr)"

text \<open>The calls of callbacks, among those of a trace, that threw.\<close>

definition threw :: "env \<Rightarrow> effect list \<Rightarrow> (callback \<times> payload) list" where
  "threw e tr = filter (\<lambda>c. callback_throws e (fst c) (snd c)) (invoked tr)"

text \<open>
  A callback that, called with \<open>d\<close>, unregisters no callback of \<open>event\<close>: among its calls
  there is no \<^verbatim>\<open>off\<close> for that event.
\<close>

definition keeps :: "env \<Rightarrow> string \<Rightarrow> payload \<Rightarrow> callback \<Rightarrow> bool" where
  "keeps e event d cb =
     list_all (\<lambda>c. case c of CallOff event' cb' \<Rightarrow> event' \<noteq> event | CallOn event' cb' \<Rightarrow> True)
       (callback_body e cb d)"

text \<open>
  The names of the transport events whose registration \<^verbatim>\<open>setupSocketEvents\<close> gets to:
  all up to the first that throws; and whether \<^verbatim>\<open>io(...)\<close> or a registration throws.
\<close>

fun attempted :: "env \<Rightarrow> string list \<Rightarrow> string list" where
  "attempted e [] = []"
| "attempted e (name # names) =
     name # (if transport_throws e (SocketOn name) then [] else attempted e names)"

definition connect_fails :: "env \<Rightarrow> bool" where
  "connect_fails e =
     (transport_throws e Io \<or> list_ex (\<lambda>name. transport_throws e (SocketOn name)) socket_events)"

subsection \<open>The arithmetic of doubles\<close>

text \<open>
  What the properties of the delay assume of the rounding: it is monotone, and it leaves
  unchanged every number \<open>m / 2^k\<close> with \<open>|m| \<le> 2^53\<close> and \<open>k \<le> 1074\<close>, all of which
  are doubles. IEEE 754 rounding to nearest is such a rounding, and so is exact arithmetic.
  Where \<^verbatim>\<open>Math.pow\<close> overflows, the double is \<^verbatim>\<open>Infinity\<close>, which
  \<^verbatim>\<open>Math.min\<close> replaces by 30000 as it does every real above 30000.
  \<open>sane e\<close> adds that \<^verbatim>\<open>Math.random()\<close> returns a number in [0, 1).
\<close>

definition rounds :: "(real \<Rightarrow> real) \<Rightarrow> bool" where
  "rounds f \<longleftrightarrow>
     (\<forall>x y. x \<le> y \<longrightarrow> f x \<le> f y) \<and>
     (\<forall>m k. \<bar>m\<bar> \<le> 2 ^ 53 \<and> k \<le> 1074 \<longrightarrow> f (of_int m / 2 ^ k) = of_int m / 2 ^ k)"



subsection \<open>Observations on the page of the dashboard\<close>

text \<open>The requests posted, the notifications shown, and what a method added to the page.\<close>

definition posts :: "page_effect list \<Rightarrow> (string \<times> string) list" where
  "posts pg = concat (map (\<lambda>x. case x of HttpPost url body \<Rightarrow> [(url, body)] | _ \<Rightarrow> []) pg)"

definition notifications :: "page_effect list \<Rightarrow> (string \<times> string) list" where
  "notifications pg =
     concat (map (\<lambda>x. case x of AppendNotification type icon msg \<Rightarrow> [(type, msg)] | _ \<Rightarrow> []) pg)"

definition shown :: "MuseBotDashboard \<Rightarrow> MuseBotDashboard \<Rightarrow> page_effect list" where
  "shown d d' = drop (length (page d)) (page d')"

subsection \<open>Environments\<close>



definition connect_throws :: env where
  "connect_throws = quiet\<lparr>transport_throws := (\<lambda>c. c = SocketConnect)\<rparr>"

definition io_throws :: env where
  "io_throws = quiet\<lparr>transport_throws := (\<lambda>c. c = Io)\<rparr>"

definition registration_throws :: env where
  "registration_throws = quiet\<lparr>transport_throws := (\<lambda>c. c = SocketOn ''disconnect'')\<rparr>"



subsection \<open>Runs of failed attempts\<close>

text \<open>
  A failed attempt: the transport reports a connect error, then the reconnect timeout set
  for it fires. \<open>failures\<close> is one such round for each pair of environments, and
  \<open>three_failures\<close> three connect errors in a row, each reconnect timeout firing before
  the next error.
\<close>

definition failure_round :: "env \<times> env \<Rightarrow> (env \<times> input) list" where
  "failure_round ee = [(fst ee, OnConnectError ''timeout''), (snd ee, ReconnectTimer)]"

definition failures :: "(env \<times> env) list \<Rightarrow> (env \<times> input) list" where
  "failures es = concat (map failure_round es)"


text \<open>The transport connects, and disconnects again before anything else happens.\<close>

definition brief_connection :: "(env \<times> input) list" where
  "brief_connection = [(quiet, OnConnect), (quiet, OnDisconnect ''transport close'')]"

subsection \<open>Example managers and dashboards\<close>

text \<open>
  \<open>started\<close> is the manager right after its construction in a quiet environment, and
  \<open>connected_manager\<close> that manager after the transport connected. On \<open>twice\<close> the
  callback 1 is registered twice for the event x, on \<open>both\<close> the callbacks 1 and 2 once
  each. \<open>retrying\<close> has made three attempts and has a subscriber to
  \<^verbatim>\<open>connection_change\<close>. \<open>fallen_back\<close> has used up its attempts and seen one more
  connect error; \<open>exhausted\<close> got there the long way, through ten failed attempts.
  \<open>idle_dashboard\<close> is a dashboard that is not connected and has shown nothing yet.
\<close>

definition started :: SocketManager where
  "started = snd (new_SocketManager quiet)"

definition connected_manager :: SocketManager where
  "connected_manager = step (quiet, OnConnect) (snd (new_SocketManager quiet))"

definition twice :: SocketManager where
  "twice = on ''x'' 1 (on ''x'' 3 (on ''x'' 1 (on ''x'' 2 fresh)))"


definition retrying :: SocketManager where
  "retrying = on ''connection_change'' 5 (started\<lparr>reconnectAttempts := 3\<rparr>)"

definition fallen_back :: SocketManager where
  "fallen_back = step (quiet, OnConnectError ''timeout'') (started\<lparr>reconnectAttempts := 10\<rparr>)"

definition exhausted :: SocketManager where
  "exhausted =
     step (quiet, OnConnectError ''timeout'') (run (failures (replicate 10 (quiet, quiet))) started)"

definition idle_dashboard :: MuseBotDashboard where
  "idle_dashboard = \<lparr>connected = False, hasContainer = False, page = []\<rparr>"

section \<open>Properties\<close>

subsection \<open>Sequencing and observations\<close>

lemma seq_Normal: "p s = (Normal, s') \<Longrightarrow> seq p q s = q s'"
  by (simp add: seq_def)

lemma seq_Raised: "p s = (Raised x, s') \<Longrightarrow> seq p q s = (Raised x, s')"
  by (simp add: seq_def)

lemma invoked_simps [simp]:
  "invoked [] = []"
  "invoked (xs @ ys) = invoked xs @ invoked ys"
  "invoked (x # xs) = (case x of Invoke cb d \<Rightarrow> [(cb, d)] | _ \<Rightarrow> []) @ invoked xs"
  by (simp_all add: invoked_def)

lemma callback_errors_simps [simp]:
  "callback_errors [] = []"
  "callback_errors (xs @ ys) = callback_errors xs @ callback_errors ys"
  "callback_errors (x # xs) =
     (case x of ConsoleError (CallbackFailed ev) \<Rightarrow> [ev] | _ \<Rightarrow> []) @ callback_errors xs"
  by (simp_all add: callback_errors_def)

lemma dispatched_simps [simp]:
  "dispatched ev [] = 0"
  "dispatched ev (xs @ ys) = dispatched ev xs + dispatched ev ys"
  "dispatched ev (x # xs) = (case x of Dispatch ev' d \<Rightarrow> if ev' = ev then 1 else 0 | _ \<Rightarrow> 0) + dispatched ev xs"
  by (simp_all add: dispatched_def split: effect.split)

lemma transport_calls_simps [simp]:
  "transport_calls [] = []"
  "transport_calls (xs @ ys) = transport_calls xs @ transport_calls ys"
  "transport_calls (x # xs) = (case x of Transport c \<Rightarrow> [c] | _ \<Rightarrow> []) @ transport_calls xs"
  by (simp_all add: transport_calls_def)

lemma timeouts_set_simps [simp]:
  "timeouts_set [] = []"
  "timeouts_set (xs @ ys) = timeouts_set xs @ timeouts_set ys"
  "timeouts_set (x # xs) = (case x of SetTimeout delay \<Rightarrow> [delay] | _ \<Rightarrow> []) @ timeouts_set xs"
  by (simp_all add: timeouts_set_def)

lemma intervals_set_simps [simp]:
  "intervals_set [] = 0"
  "intervals_set (xs @ ys) = intervals_set xs + intervals_set ys"
  "intervals_set (x # xs) = (case x of SetInterval i ms \<Rightarrow> 1 | _ \<Rightarrow> 0) + intervals_set xs"
  by (simp_all add: intervals_set_def split: effect.split)

lemma fetches_simps [simp]:
  "fetches [] = []"
  "fetches (xs @ ys) = fetches xs @ fetches ys"
  "fetches (x # xs) = (case x of Fetch url \<Rightarrow> [url] | _ \<Rightarrow> []) @ fetches xs"
  by (simp_all add: fetches_def)

lemma schedule_logs_simps [simp]:
  "schedule_logs [] = []"
  "schedule_logs (xs @ ys) = schedule_logs xs @ schedule_logs ys"
  "schedule_logs (x # xs) =
     (case x of ConsoleLog MaxAttemptsReached \<Rightarrow> [MaxAttemptsReached]
              | ConsoleLog (SchedulingReconnect delay) \<Rightarrow> [SchedulingReconnect delay]
              | _ \<Rightarrow> []) @ schedule_logs xs"
  by (simp_all add: schedule_logs_def)

lemma threw_simps [simp]:
  "threw e [] = []"
  "threw e (xs @ ys) = threw e xs @ threw e ys"
  "threw e (x # xs) =
     (case x of Invoke cb d \<Rightarrow> if callback_throws e cb d then [(cb, d)] else [] | _ \<Rightarrow> []) @ threw e xs"
  by (simp_all add: threw_def split: effect.split)

lemma added_trace [simp]: "added s (s'\<lparr>trace := trace s @ xs\<rparr>) = xs"
  by (simp add: added_def)

lemma added_append: "trace s1 = trace s @ p \<Longrightarrow> trace s2 = trace s1 @ q \<Longrightarrow> added s s2 = p @ q"
  by (simp add: added_def)

lemma registered_entries: "registered s event = entries (eventCallbacks s) event"
  by (simp add: registered_def entries_def)

lemma registered_upd [simp]:
  "registered (s\<lparr>trace := t\<rparr>) = registered s"
  "registered (s\<lparr>reconnectAttempts := n\<rparr>) = registered s"
  "registered (s\<lparr>isConnected := b\<rparr>) = registered s"
  "registered (s\<lparr>pendingReconnects := k\<rparr>) = registered s"
  "registered (s\<lparr>activeIntervals := a\<rparr>) = registered s"
  "registered (s\<lparr>nextTimerId := i\<rparr>) = registered s"
  "registered (s\<lparr>pollingInterval := p\<rparr>) = registered s"
  "registered (s\<lparr>socket := c\<rparr>) = registered s"
  by (simp_all add: registered_def fun_eq_iff)

lemma registered_on: "registered (on event cb s) event = registered s event @ [cb]"
  by (simp add: on_def registered_def Let_def split: option.split)

lemma on_sel [simp]:
  "socket (on event cb s) = socket s" "reconnectAttempts (on event cb s) = reconnectAttempts s"
  "maxReconnectAttempts (on event cb s) = maxReconnectAttempts s"
  "isConnected (on event cb s) = isConnected s" "trace (on event cb s) = trace s"
  "pendingReconnects (on event cb s) = pendingReconnects s"
  "activeIntervals (on event cb s) = activeIntervals s"
  by (simp_all add: on_def Let_def split: option.split)

lemma fresh_sel [simp]:
  "socket fresh = False" "reconnectAttempts fresh = 0" "maxReconnectAttempts fresh = 10"
  "reconnectDelay fresh = 1000" "isConnected fresh = False" "eventCallbacks fresh = Map.empty"
  "pollingInterval fresh = None" "trace fresh = []" "pendingReconnects fresh = 0"
  "activeIntervals fresh = []" "nextTimerId fresh = 1"
  by (simp_all add: fresh_def)

lemma quiet_sel [simp]:
  "callback_body quiet = (\<lambda>cb d. [])" "callback_throws quiet = (\<lambda>cb d. False)"
  "transport_throws quiet = (\<lambda>c. False)" "random quiet = 0" "fl quiet = (\<lambda>x. x)"
  by (simp_all add: quiet_def)

subsection \<open>The registry during a dispatch\<close>

lemma entries_simps [simp]:
  "entries Map.empty event = []"
  "entries (m(event \<mapsto> cbs)) event' = (if event' = event then cbs else entries m event')"
  by (simp_all add: entries_def)

lemma on_eq: "on event cb s = s\<lparr>eventCallbacks := on_map event cb (eventCallbacks s)\<rparr>"
  by (simp add: on_def on_map_def entries_def Let_def split: option.split)

lemma off_eq: "off event cb s = s\<lparr>eventCallbacks := off_map event cb (eventCallbacks s)\<rparr>"
  by (simp add: off_def off_map_def Let_def split: option.split)

lemma apply_calls_eq: "apply_calls cs s = s\<lparr>eventCallbacks := calls_map cs (eventCallbacks s)\<rparr>"
proof (induction cs arbitrary: s)
  case Nil
  show ?case by simp
next
  case (Cons c cs)
  show ?case by (cases c) (simp_all add: Cons.IH on_eq off_eq)
qed

lemma guarded_eq:
  "guarded e event d cb s =
     (Normal, s\<lparr>trace := trace s @ Invoke cb d #
                  (if callback_throws e cb d then [ConsoleError (CallbackFailed event)] else []),
               eventCallbacks := calls_map (callback_body e cb d) (eventCallbacks s)\<rparr>)"
  by (simp add: guarded_def try_catch_def invoke_def perform_def record_effect_def apply_calls_eq)

lemma forEach_live_eq:
  "forEach_live (\<lambda>s. registered s event) (guarded e event d) k n s =
     (Normal, s\<lparr>trace := trace s @ fst (live e event d k n (eventCallbacks s)),
               eventCallbacks := snd (live e event d k n (eventCallbacks s))\<rparr>)"
proof (induction n arbitrary: k s)
  case 0
  show ?case by simp
next
  case (Suc n)
  let ?visit = "\<lambda>s. if k < length (registered s event)
                     then guarded e event d (registered s event ! k) s else (Normal, s)"
  show ?case
  proof (cases "k < length (registered s event)")
    case True
    let ?cb = "registered s event ! k"
    let ?s1 = "s\<lparr>trace := trace s @ Invoke ?cb d #
                  (if callback_throws e ?cb d then [ConsoleError (CallbackFailed event)] else []),
               eventCallbacks := calls_map (callback_body e ?cb d) (eventCallbacks s)\<rparr>"
    have g: "?visit s = (Normal, ?s1)"
      using True by (simp add: guarded_eq)
    have "forEach_live (\<lambda>s. registered s event) (guarded e event d) k (Suc n) s =
          forEach_live (\<lambda>s. registered s event) (guarded e event d) (Suc k) n ?s1"
      by (simp only: forEach_live.simps seq_Normal [of ?visit s, OF g])
    also have "\<dots> = (Normal, ?s1\<lparr>trace := trace ?s1 @ fst (live e event d (Suc k) n (eventCallbacks ?s1)),
               eventCallbacks := snd (live e event d (Suc k) n (eventCallbacks ?s1))\<rparr>)"
      by (rule Suc.IH)
    also have "\<dots> = (Normal, s\<lparr>trace := trace s @ fst (live e event d k (Suc n) (eventCallbacks s)),
               eventCallbacks := snd (live e event d k (Suc n) (eventCallbacks s))\<rparr>)"
      using True by (simp add: registered_entries Let_def)
    finally show ?thesis .
  next
    case False
    have g: "?visit s = (Normal, s)"
      using False by simp
    have "forEach_live (\<lambda>s. registered s event) (guarded e event d) k (Suc n) s =
          forEach_live (\<lambda>s. registered s event) (guarded e event d) (Suc k) n s"
      by (simp only: forEach_live.simps seq_Normal [of ?visit s, OF g])
    also have "\<dots> = (Normal, s\<lparr>trace := trace s @ fst (live e event d (Suc k) n (eventCallbacks s)),
               eventCallbacks := snd (live e event d (Suc k) n (eventCallbacks s))\<rparr>)"
      by (rule Suc.IH)
    also have "\<dots> = (Normal, s\<lparr>trace := trace s @ fst (live e event d k (Suc n) (eventCallbacks s)),
               eventCallbacks := snd (live e event d k (Suc n) (eventCallbacks s))\<rparr>)"
      using False by (simp add: registered_entries)
    finally show ?thesis .
  qed
qed

lemma triggerEvent_eq:
  "triggerEvent e event d s =
     (Normal, s\<lparr>trace := trace s @ dispatch_effects e (eventCallbacks s) event d,
               eventCallbacks := registry_after e (eventCallbacks s) event d\<rparr>)"
  by (simp add: triggerEvent_def record_effect_def forEach_live_eq dispatch_effects_def
      registry_after_def split: option.split)

lemma observe_live [simp]:
  "dispatched ev (fst (live e event d k n m)) = 0"
  "transport_calls (fst (live e event d k n m)) = []"
  "timeouts_set (fst (live e event d k n m)) = []"
  "intervals_set (fst (live e event d k n m)) = 0"
  "fetches (fst (live e event d k n m)) = []"
  "schedule_logs (fst (live e event d k n m)) = []"
  "length (callback_errors (fst (live e event d k n m))) = length (threw e (fst (live e event d k n m)))"
  "list_all (\<lambda>c. snd c = d) (invoked (fst (live e event d k n m)))"
  by (induction e event d k n m rule: live.induct; simp add: Let_def)+

lemma observe_dispatch_effects [simp]:
  "dispatched ev (dispatch_effects e m event d) = (if event = ev then 1 else 0)"
  "transport_calls (dispatch_effects e m event d) = []"
  "timeouts_set (dispatch_effects e m event d) = []"
  "intervals_set (dispatch_effects e m event d) = 0"
  "fetches (dispatch_effects e m event d) = []"
  "schedule_logs (dispatch_effects e m event d) = []"
  "length (callback_errors (dispatch_effects e m event d)) = length (threw e (dispatch_effects e m event d))"
  "list_all (\<lambda>c. snd c = d) (invoked (dispatch_effects e m event d))"
  by (simp_all add: dispatch_effects_def split: option.split)

text \<open>
  While no callback unregisters a callback of the event, the array being iterated keeps
  the callbacks it had when the dispatch began, in front of those registered since.
\<close>

lemma calls_map_keeps_prefix:
  "list_all (\<lambda>c. case c of CallOff event' cb' \<Rightarrow> event' \<noteq> event | CallOn event' cb' \<Rightarrow> True) cs \<Longrightarrow>
   \<exists>ys. entries (calls_map cs m) event = entries m event @ ys"
proof (induction cs arbitrary: m)
  case Nil
  show ?case by simp
next
  case (Cons c cs)
  show ?case
  proof (cases c)
    case (CallOn event' cb')
    from Cons.prems have "\<exists>ys. entries (calls_map cs (on_map event' cb' m)) event =
        entries (on_map event' cb' m) event @ ys"
      by (intro Cons.IH) simp
    then show ?thesis using CallOn by (auto simp: on_map_def)
  next
    case (CallOff event' cb')
    with Cons.prems have ne: "event' \<noteq> event" by simp
    from Cons.prems have "\<exists>ys. entries (calls_map cs (off_map event' cb' m)) event =
        entries (off_map event' cb' m) event @ ys"
      by (intro Cons.IH) simp
    moreover have "entries (off_map event' cb' m) event = entries m event"
      using ne by (simp add: off_map_def entries_def split: option.split)
    ultimately show ?thesis using CallOff by simp
  qed
qed

lemma live_visits_all:
  "list_all (keeps e event d) cbs \<Longrightarrow> k + n = length cbs \<Longrightarrow> entries m event = cbs @ xs \<Longrightarrow>
   invoked (fst (live e event d k n m)) = map (\<lambda>cb. (cb, d)) (drop k cbs) \<and>
   callback_errors (fst (live e event d k n m)) =
     map (\<lambda>cb. event) (filter (\<lambda>cb. callback_throws e cb d) (drop k cbs))"
proof (induction n arbitrary: k m xs)
  case 0
  then show ?case by simp
next
  case (Suc n)
  from Suc.prems have k: "k < length cbs" by simp
  then have cb: "entries m event ! k = cbs ! k" and lt: "k < length (entries m event)"
    using Suc.prems(3) by (simp_all add: nth_append)
  have "keeps e event d (cbs ! k)"
    using Suc.prems(1) k by (simp add: list_all_length)
  then obtain ys where
    "entries (calls_map (callback_body e (cbs ! k) d) m) event = entries m event @ ys"
    unfolding keeps_def using calls_map_keeps_prefix by blast
  then have p: "entries (calls_map (callback_body e (cbs ! k) d) m) event = cbs @ (xs @ ys)"
    using Suc.prems(3) by simp
  have n: "Suc k + n = length cbs" using Suc.prems(2) by simp
  note ih = Suc.IH [OF Suc.prems(1) n p]
  have d: "drop k cbs = cbs ! k # drop (Suc k) cbs"
    using k by (simp add: Cons_nth_drop_Suc)
  show ?case
    using ih lt by (simp add: cb d Let_def)
qed

lemma dispatch_visits_all:
  assumes "list_all (keeps e event d) (entries m event)"
  shows "invoked (dispatch_effects e m event d) = map (\<lambda>cb. (cb, d)) (entries m event)"
    and "callback_errors (dispatch_effects e m event d) =
           map (\<lambda>cb. event) (filter (\<lambda>cb. callback_throws e cb d) (entries m event))"
proof -
  have "invoked (dispatch_effects e m event d) = map (\<lambda>cb. (cb, d)) (entries m event) \<and>
        callback_errors (dispatch_effects e m event d) =
           map (\<lambda>cb. event) (filter (\<lambda>cb. callback_throws e cb d) (entries m event))"
  proof (cases "m event")
    case None
    then show ?thesis by (simp add: dispatch_effects_def entries_def)
  next
    case (Some cbs)
    then have c: "entries m event = cbs" by (simp add: entries_def)
    have "invoked (fst (live e event d 0 (length cbs) m)) = map (\<lambda>cb. (cb, d)) (drop 0 cbs) \<and>
          callback_errors (fst (live e event d 0 (length cbs) m)) =
            map (\<lambda>cb. event) (filter (\<lambda>cb. callback_throws e cb d) (drop 0 cbs))"
      using assms c by (intro live_visits_all [where xs = "[]"]) simp_all
    then show ?thesis using Some c by (simp add: dispatch_effects_def)
  qed
  then show "invoked (dispatch_effects e m event d) = map (\<lambda>cb. (cb, d)) (entries m event)"
    and "callback_errors (dispatch_effects e m event d) =
           map (\<lambda>cb. event) (filter (\<lambda>cb. callback_throws e cb d) (entries m event))"
    by simp_all
qed

lemma dispatch_visits_registered:
  assumes "list_all (keeps e event d) (registered s event)"
  shows "invoked (dispatch_effects e (eventCallbacks s) event d) =
           map (\<lambda>cb. (cb, d)) (registered s event)"
    and "callback_errors (dispatch_effects e (eventCallbacks s) event d) =
           map (\<lambda>cb. event) (filter (\<lambda>cb. callback_throws e cb d) (registered s event))"
  using assms dispatch_visits_all [of e event d "eventCallbacks s"]
  by (simp_all add: registered_entries)

lemma registered_fresh [simp]: "registered fresh event = []"
  by (simp add: registered_def)

lemma keeps_quiet [simp]: "keeps quiet event d cb"
  by (simp add: keeps_def)

lemma dispatch_effects_empty [simp]:
  "dispatch_effects e Map.empty event d = [Dispatch event d]"
  "registry_after e Map.empty event d = Map.empty"
  by (simp_all add: dispatch_effects_def registry_after_def)

subsection \<open>What each method does, in closed form\<close>

lemma observe_fallback_effects [simp]:
  "dispatched ev (fallback_effects e m i) =
     (if ev = ''reconnect_failed'' then 1 else 0) + (if ev = ''polling_started'' then 1 else 0)"
  "transport_calls (fallback_effects e m i) = []"
  "timeouts_set (fallback_effects e m i) = []"
  "intervals_set (fallback_effects e m i) = 1"
  "fetches (fallback_effects e m i) = []"
  "schedule_logs (fallback_effects e m i) = []"
  "length (callback_errors (fallback_effects e m i)) = length (threw e (fallback_effects e m i))"
  by (auto simp: fallback_effects_def)

lemma calculateReconnectDelay_upd [simp]:
  "calculateReconnectDelay e (s\<lparr>trace := t\<rparr>) = calculateReconnectDelay e s"
  "calculateReconnectDelay e (s\<lparr>isConnected := b\<rparr>) = calculateReconnectDelay e s"
  "calculateReconnectDelay e (s\<lparr>pendingReconnects := k\<rparr>) = calculateReconnectDelay e s"
  "calculateReconnectDelay e (s\<lparr>eventCallbacks := m\<rparr>) = calculateReconnectDelay e s"
  "calculateReconnectDelay e (s\<lparr>nextTimerId := i\<rparr>) = calculateReconnectDelay e s"
  by (simp_all add: calculateReconnectDelay_def)

lemma setupPollingFallback_eq:
  "setupPollingFallback e s =
     (Normal, s\<lparr>trace := trace s @ ConsoleLog SettingUpPolling #
                  dispatch_effects e (eventCallbacks s) ''polling_started'' Undefined @
                  [SetInterval (nextTimerId s) 5000],
               eventCallbacks := registry_after e (eventCallbacks s) ''polling_started'' Undefined,
               activeIntervals := activeIntervals s @ [nextTimerId s],
               nextTimerId := nextTimerId s + 1,
               pollingInterval := Some (nextTimerId s)\<rparr>)"
  by (simp add: setupPollingFallback_def seq_def perform_def record_effect_def triggerEvent_eq Let_def)

lemma handleReconnectFailed_eq:
  "handleReconnectFailed e s =
     (Normal, s\<lparr>trace := trace s @ fallback_effects e (eventCallbacks s) (nextTimerId s),
               eventCallbacks := fallback_registry e (eventCallbacks s),
               activeIntervals := activeIntervals s @ [nextTimerId s],
               nextTimerId := nextTimerId s + 1,
               pollingInterval := Some (nextTimerId s)\<rparr>)"
  by (simp add: handleReconnectFailed_def seq_def triggerEvent_eq setupPollingFallback_eq
      fallback_effects_def fallback_registry_def)

lemma scheduleReconnect_retry:
  "reconnectAttempts s < maxReconnectAttempts s \<Longrightarrow>
   scheduleReconnect e s =
     (Normal, s\<lparr>trace := trace s @ [ConsoleLog (SchedulingReconnect (calculateReconnectDelay e s)),
                                    SetTimeout (calculateReconnectDelay e s)],
               pendingReconnects := pendingReconnects s + 1,
               nextTimerId := nextTimerId s + 1\<rparr>)"
  by (simp add: scheduleReconnect_def seq_def perform_def record_effect_def setTimeout_def Let_def)

lemma scheduleReconnect_give_up:
  "maxReconnectAttempts s \<le> reconnectAttempts s \<Longrightarrow>
   scheduleReconnect e s =
     (Normal, s\<lparr>trace := trace s @ ConsoleLog MaxAttemptsReached #
                  fallback_effects e (eventCallbacks s) (nextTimerId s),
               eventCallbacks := fallback_registry e (eventCallbacks s),
               activeIntervals := activeIntervals s @ [nextTimerId s],
               nextTimerId := nextTimerId s + 1,
               pollingInterval := Some (nextTimerId s)\<rparr>)"
  by (simp add: scheduleReconnect_def seq_def perform_def record_effect_def handleReconnectFailed_eq)

lemma give_up_counts:
  assumes "maxReconnectAttempts s \<le> reconnectAttempts s"
  shows "dispatched ''reconnect_failed'' (added s (snd (scheduleReconnect e s))) = 1"
    and "intervals_set (added s (snd (scheduleReconnect e s))) = 1"
    and "timeouts_set (added s (snd (scheduleReconnect e s))) = []"
  using assms by (simp_all add: scheduleReconnect_give_up added_def)

text \<open>
  What \<^verbatim>\<open>scheduleReconnect\<close> and \<^verbatim>\<open>handleConnectionError\<close> append to the trace,
  whichever branch is taken.
\<close>

lemma scheduleReconnect_appends:
  "\<exists>q. trace (snd (scheduleReconnect e s)) = trace s @ q \<and>
       fst (scheduleReconnect e s) = Normal \<and>
       dispatched ''connection_error'' q = 0 \<and> transport_calls q = [] \<and>
       length (callback_errors q) = length (threw e q)"
  by (cases "reconnectAttempts s < maxReconnectAttempts s")
     (simp_all add: scheduleReconnect_retry scheduleReconnect_give_up)

lemma handleConnectionError_appends:
  "\<exists>q. trace (snd (handleConnectionError e x s)) = trace s @ q \<and>
       fst (handleConnectionError e x s) = Normal \<and>
       dispatched ''connection_error'' q = 1 \<and> transport_calls q = [] \<and>
       length (callback_errors q) = length (threw e q)"
proof -
  let ?s1 = "s\<lparr>trace := trace s @ dispatch_effects e (eventCallbacks s) ''connection_error'' (ErrorInfo x),
               eventCallbacks := registry_after e (eventCallbacks s) ''connection_error'' (ErrorInfo x)\<rparr>"
  have h: "handleConnectionError e x s = scheduleReconnect e ?s1"
    by (simp add: handleConnectionError_def seq_def triggerEvent_eq)
  from scheduleReconnect_appends [of e ?s1] obtain q where
    q: "trace (snd (scheduleReconnect e ?s1)) = trace ?s1 @ q"
       "fst (scheduleReconnect e ?s1) = Normal"
       "dispatched ''connection_error'' q = 0" "transport_calls q = []"
       "length (callback_errors q) = length (threw e q)"
    by blast
  show ?thesis
    unfolding h using q
    by (intro exI [of _ "dispatch_effects e (eventCallbacks s) ''connection_error'' (ErrorInfo x) @ q"])
       simp
qed

lemma scheduleReconnect_returns: "fst (scheduleReconnect e s) = Normal"
  using scheduleReconnect_appends [of e s] by blast

lemma handleConnectionError_returns: "fst (handleConnectionError e x s) = Normal"
  using handleConnectionError_appends [of e x s] by blast

lemma setupSocketEvents_eq:
  "socket s \<Longrightarrow>
   forEach (\<lambda>name. on_socket e (SocketOn name)) names s =
     (if list_ex (\<lambda>name. transport_throws e (SocketOn name)) names then Raised TransportThrew else Normal,
      s\<lparr>trace := trace s @ map (\<lambda>name. Transport (SocketOn name)) (attempted e names)\<rparr>)"
proof (induction names arbitrary: s)
  case Nil
  show ?case by simp
next
  case (Cons name names)
  let ?s1 = "s\<lparr>trace := trace s @ [Transport (SocketOn name)]\<rparr>"
  show ?case
  proof (cases "transport_throws e (SocketOn name)")
    case True
    have "on_socket e (SocketOn name) s = (Raised TransportThrew, ?s1)"
      using True Cons.prems by (simp add: on_socket_def call_transport_def record_effect_def)
    then show ?thesis using True by (simp add: seq_def)
  next
    case False
    have g: "on_socket e (SocketOn name) s = (Normal, ?s1)"
      using False Cons.prems by (simp add: on_socket_def call_transport_def record_effect_def)
    have s1: "socket ?s1" using Cons.prems by simp
    show ?thesis
      using False g by (simp add: seq_def Cons.IH [OF s1])
  qed
qed

lemma connect_eq:
  "connect e s =
     (if transport_throws e Io
      then handleConnectionError e None
             (s\<lparr>trace := trace s @ [ConsoleLog Connecting, Transport Io, ConsoleError ConnectionFailed]\<rparr>)
      else if list_ex (\<lambda>name. transport_throws e (SocketOn name)) socket_events
      then handleConnectionError e None
             (s\<lparr>socket := True,
                trace := trace s @ ConsoleLog Connecting # Transport Io #
                         map (\<lambda>name. Transport (SocketOn name)) (attempted e socket_events) @
                         [ConsoleError ConnectionFailed]\<rparr>)
      else (Normal,
            s\<lparr>socket := True,
              trace := trace s @ ConsoleLog Connecting # Transport Io #
                       map (\<lambda>name. Transport (SocketOn name)) (attempted e socket_events)\<rparr>))"
proof -
  let ?s1 = "s\<lparr>trace := trace s @ [ConsoleLog Connecting, Transport Io], socket := True\<rparr>"
  have s1: "socket ?s1" by simp
  note r = setupSocketEvents_eq [OF s1, of e socket_events]
  show ?thesis
    by (simp add: connect_def try_catch_def seq_def perform_def call_transport_def record_effect_def
        assign_def setupSocketEvents_def r)
qed

lemma connect_returns: "fst (connect e s) = Normal"
  by (simp add: connect_eq handleConnectionError_returns)

lemma connect_appends:
  "\<exists>q. trace (snd (connect e s)) = trace s @ q \<and>
       dispatched ''connection_error'' q = (if connect_fails e then 1 else 0) \<and>
       length (callback_errors q) = length (threw e q)"
proof -
  let ?p = "ConsoleLog Connecting # Transport Io #
            map (\<lambda>name. Transport (SocketOn name)) (attempted e socket_events)"
  have quiet_part: "dispatched ''connection_error'' ?p = 0 \<and> callback_errors ?p = [] \<and> threw e ?p = []"
    by (induction "attempted e socket_events") (simp_all add: dispatched_def callback_errors_def threw_def invoked_def)
  consider (io) "transport_throws e Io"
    | (reg) "\<not> transport_throws e Io" "list_ex (\<lambda>name. transport_throws e (SocketOn name)) socket_events"
    | (ok) "\<not> transport_throws e Io" "\<not> list_ex (\<lambda>name. transport_throws e (SocketOn name)) socket_events"
    by blast
  then show ?thesis
  proof cases
    case io
    let ?s1 = "s\<lparr>trace := trace s @ [ConsoleLog Connecting, Transport Io, ConsoleError ConnectionFailed]\<rparr>"
    from handleConnectionError_appends [of e None ?s1] obtain q where
      q: "trace (snd (handleConnectionError e None ?s1)) = trace ?s1 @ q"
         "dispatched ''connection_error'' q = 1" "length (callback_errors q) = length (threw e q)"
      by blast
    show ?thesis
      using io q
      by (intro exI [of _ "[ConsoleLog Connecting, Transport Io, ConsoleError ConnectionFailed] @ q"])
         (simp add: connect_eq connect_fails_def)
  next
    case reg
    let ?s1 = "s\<lparr>socket := True, trace := trace s @ ?p @ [ConsoleError ConnectionFailed]\<rparr>"
    from handleConnectionError_appends [of e None ?s1] obtain q where
      q: "trace (snd (handleConnectionError e None ?s1)) = trace ?s1 @ q"
         "dispatched ''connection_error'' q = 1" "length (callback_errors q) = length (threw e q)"
      by blast
    show ?thesis
      using reg q quiet_part
      by (intro exI [of _ "?p @ [ConsoleError ConnectionFailed] @ q"])
         (simp add: connect_eq connect_fails_def)
  next
    case ok
    show ?thesis
      using ok quiet_part
      by (intro exI [of _ ?p]) (simp add: connect_eq connect_fails_def)
  qed
qed

lemma attemptReconnect_eq:
  "attemptReconnect e s =
     (if isConnected s then (Normal, s)
      else if socket s
      then (if transport_throws e SocketConnect then Raised TransportThrew else Normal,
            s\<lparr>reconnectAttempts := reconnectAttempts s + 1,
              trace := trace s @ [ConsoleLog (ReconnectionAttempt (reconnectAttempts s + 1)
                                              (maxReconnectAttempts s)),
                                  Transport SocketConnect]\<rparr>)
      else connect e
            (s\<lparr>reconnectAttempts := reconnectAttempts s + 1,
              trace := trace s @ [ConsoleLog (ReconnectionAttempt (reconnectAttempts s + 1)
                                              (maxReconnectAttempts s))]\<rparr>))"
  by (simp add: attemptReconnect_def seq_def assign_def perform_def call_transport_def
      record_effect_def)

lemma handleConnect_eq:
  "socket s \<Longrightarrow>
   snd (handleConnect e s) =
     s\<lparr>isConnected := True, reconnectAttempts := 0,
       trace := trace s @ dispatch_effects e (eventCallbacks s) ''connection_change''
                            (ConnectionChange True None) @
                [Transport (SocketEmit ''get_initial_data'' Undefined)],
       eventCallbacks := registry_after e (eventCallbacks s) ''connection_change''
                            (ConnectionChange True None)\<rparr>"
  by (simp add: handleConnect_def seq_def assign_def triggerEvent_eq on_socket_def
      call_transport_def record_effect_def)

lemma handleDisconnect_local:
  "handleDisconnect e ''io client disconnect'' s =
     (Normal, s\<lparr>isConnected := False,
               trace := trace s @ dispatch_effects e (eventCallbacks s) ''connection_change''
                          (ConnectionChange False (Some ''io client disconnect'')),
               eventCallbacks := registry_after e (eventCallbacks s) ''connection_change''
                          (ConnectionChange False (Some ''io client disconnect''))\<rparr>)"
  by (simp add: handleDisconnect_def seq_def assign_def triggerEvent_eq skip_def)

lemma handleDisconnect_other:
  "reason \<noteq> ''io client disconnect'' \<Longrightarrow>
   handleDisconnect e reason s =
     scheduleReconnect e
       (s\<lparr>isConnected := False,
          trace := trace s @ dispatch_effects e (eventCallbacks s) ''connection_change''
                     (ConnectionChange False (Some reason)),
          eventCallbacks := registry_after e (eventCallbacks s) ''connection_change''
                     (ConnectionChange False (Some reason))\<rparr>)"
  by (simp add: handleDisconnect_def seq_def assign_def triggerEvent_eq)

lemma pollForUpdates_eq:
  "pollForUpdates e r s =
     (Normal, s\<lparr>trace := trace s @ poll_effects e (eventCallbacks s) r,
               eventCallbacks := poll_registry e (eventCallbacks s) r\<rparr>)"
  by (simp add: pollForUpdates_def poll_effects_def poll_registry_def try_catch_def seq_def
      perform_def record_effect_def throw_def skip_def triggerEvent_eq
      split: fetched.split option.split)

lemma observe_poll_effects:
  "fetches (poll_effects e m r) = [''/api/poll'']"
  "dispatched ''polling_update'' (poll_effects e m r) = (if poll_succeeded r then 1 else 0)"
  by (simp_all add: poll_effects_def poll_succeeded_def split: fetched.split option.split)

lemma pollTick_eq:
  "step (e, PollTimer i r) s =
     (if i \<in> set (activeIntervals s)
      then if isConnected s
           then s\<lparr>trace := trace s @ [ClearInterval i], activeIntervals := removeAll i (activeIntervals s)\<rparr>
           else s\<lparr>trace := trace s @ poll_effects e (eventCallbacks s) r,
                  eventCallbacks := poll_registry e (eventCallbacks s) r\<rparr>
      else s)"
  by (simp add: step_def pollTick_def clearInterval_def record_effect_def pollForUpdates_eq)

lemma connect_error_retry:
  "reconnectAttempts s < maxReconnectAttempts s \<Longrightarrow>
   step (e, OnConnectError x) s =
     s\<lparr>trace := trace s @ ConsoleError (SocketConnectionError x) #
                dispatch_effects e (eventCallbacks s) ''connection_error'' (ErrorInfo (Some x)) @
                [ConsoleLog (SchedulingReconnect (calculateReconnectDelay e s)),
                 SetTimeout (calculateReconnectDelay e s)],
       eventCallbacks := registry_after e (eventCallbacks s) ''connection_error'' (ErrorInfo (Some x)),
       pendingReconnects := pendingReconnects s + 1,
       nextTimerId := nextTimerId s + 1\<rparr>"
  by (simp add: step_def seq_def perform_def record_effect_def handleConnectionError_def
      triggerEvent_eq scheduleReconnect_retry)

lemma connect_error_give_up:
  "maxReconnectAttempts s \<le> reconnectAttempts s \<Longrightarrow>
   step (e, OnConnectError x) s =
     s\<lparr>trace := trace s @ ConsoleError (SocketConnectionError x) #
                dispatch_effects e (eventCallbacks s) ''connection_error'' (ErrorInfo (Some x)) @
                ConsoleLog MaxAttemptsReached #
                fallback_effects e
                  (registry_after e (eventCallbacks s) ''connection_error'' (ErrorInfo (Some x)))
                  (nextTimerId s),
       eventCallbacks :=
         fallback_registry e
           (registry_after e (eventCallbacks s) ''connection_error'' (ErrorInfo (Some x))),
       activeIntervals := activeIntervals s @ [nextTimerId s],
       nextTimerId := nextTimerId s + 1,
       pollingInterval := Some (nextTimerId s)\<rparr>"
  by (simp add: step_def seq_def perform_def record_effect_def handleConnectionError_def
      triggerEvent_eq scheduleReconnect_give_up)

lemma reconnect_timer_fires:
  "0 < pendingReconnects s \<Longrightarrow> \<not> isConnected s \<Longrightarrow> socket s \<Longrightarrow>
   step (e, ReconnectTimer) s =
     s\<lparr>pendingReconnects := pendingReconnects s - 1,
       reconnectAttempts := reconnectAttempts s + 1,
       trace := trace s @ [ConsoleLog (ReconnectionAttempt (reconnectAttempts s + 1)
                                       (maxReconnectAttempts s)),
                           Transport SocketConnect]\<rparr>"
  by (simp add: step_def attemptReconnect_eq)

lemma online_retries:
  "\<not> isConnected s \<Longrightarrow> socket s \<Longrightarrow>
   step (e, Online) s =
     s\<lparr>reconnectAttempts := reconnectAttempts s + 1,
       trace := trace s @ [ConsoleLog BrowserOnline,
                           ConsoleLog (ReconnectionAttempt (reconnectAttempts s + 1)
                                       (maxReconnectAttempts s)),
                           Transport SocketConnect]\<rparr>"
  by (simp add: step_def seq_def perform_def record_effect_def attemptReconnect_eq)

subsection \<open>The example managers\<close>

lemma attempted_quiet [simp]: "attempted quiet names = names"
  by (induction names) simp_all

lemma started_eq:
  "started = fresh\<lparr>socket := True,
        trace := map Listen [''online'', ''offline'', ''visibilitychange''] @
                 ConsoleLog Connecting # Transport Io # map (\<lambda>n. Transport (SocketOn n)) socket_events\<rparr>"
  by (simp add: started_def new_SocketManager_def init_def setupEventListeners_def seq_def
      perform_def record_effect_def connect_eq list_ex_iff)

lemma started_sel [simp]:
  "socket started" "reconnectAttempts started = 0" "maxReconnectAttempts started = 10"
  "reconnectDelay started = 1000" "\<not> isConnected started" "eventCallbacks started = Map.empty"
  "pendingReconnects started = 0" "activeIntervals started = []" "nextTimerId started = 1"
  by (simp_all add: started_eq)

lemma registered_started [simp]: "registered started event = []"
  by (simp add: registered_def)

lemma started_quiet_trace:
  "dispatched ''reconnect_failed'' (trace started) = 0" "intervals_set (trace started) = 0"
  by (simp_all add: started_eq socket_events_def)

lemma connected_manager_eq:
  "connected_manager =
     started\<lparr>isConnected := True, reconnectAttempts := 0,
       trace := trace started @
                [ConsoleLog SocketConnected,
                 Dispatch ''connection_change'' (ConnectionChange True None),
                 Transport (SocketEmit ''get_initial_data'' Undefined)]\<rparr>"
  using handleConnect_eq [of "started\<lparr>trace := trace started @ [ConsoleLog SocketConnected]\<rparr>" quiet]
  by (simp add: connected_manager_def started_def [symmetric] step_def seq_def perform_def record_effect_def)

lemma connected_manager_sel:
  "socket connected_manager" "isConnected connected_manager" "reconnectAttempts connected_manager = 0"
  by (simp_all add: connected_manager_eq)

lemma fallback_effects_empty [simp]:
  "fallback_effects e Map.empty i =
     [Dispatch ''reconnect_failed'' Undefined, ConsoleLog SettingUpPolling,
      Dispatch ''polling_started'' Undefined, SetInterval i 5000]"
  "fallback_registry e Map.empty = Map.empty"
  by (simp_all add: fallback_effects_def fallback_registry_def)

lemma fallen_back_eq:
  "fallen_back =
     started\<lparr>reconnectAttempts := 10,
       trace := trace started @
         [ConsoleError (SocketConnectionError ''timeout''),
          Dispatch ''connection_error'' (ErrorInfo (Some ''timeout'')),
          ConsoleLog MaxAttemptsReached,
          Dispatch ''reconnect_failed'' Undefined,
          ConsoleLog SettingUpPolling,
          Dispatch ''polling_started'' Undefined,
          SetInterval 1 5000],
       activeIntervals := [1], nextTimerId := 2, pollingInterval := Some 1\<rparr>"
  by (simp add: fallen_back_def connect_error_give_up)

lemma run_append: "run (xs @ ys) s = run ys (run xs s)"
  by (induction xs arbitrary: s) simp_all

lemma failure_round_step:
  assumes "reconnectAttempts s < maxReconnectAttempts s" "\<not> isConnected s" "socket s"
  shows "run (failure_round ee) s =
     s\<lparr>nextTimerId := nextTimerId s + 1,
       reconnectAttempts := reconnectAttempts s + 1,
       eventCallbacks := registry_after (fst ee) (eventCallbacks s) ''connection_error''
                           (ErrorInfo (Some ''timeout'')),
       trace := trace s @ ConsoleError (SocketConnectionError ''timeout'') #
                dispatch_effects (fst ee) (eventCallbacks s) ''connection_error''
                  (ErrorInfo (Some ''timeout'')) @
                [ConsoleLog (SchedulingReconnect (calculateReconnectDelay (fst ee) s)),
                 SetTimeout (calculateReconnectDelay (fst ee) s),
                 ConsoleLog (ReconnectionAttempt (reconnectAttempts s + 1) (maxReconnectAttempts s)),
                 Transport SocketConnect]\<rparr>"
  using assms by (simp add: failure_round_def connect_error_retry reconnect_timer_fires)

subsection \<open>C1: the delay of the backoff\<close>




lemma rounds_identity: "rounds (\<lambda>x. x)"
  by (simp add: rounds_def)












subsection \<open>C2: giving up and falling back to polling\<close>

lemma failures_invariant:
  "\<not> isConnected s \<Longrightarrow> socket s \<Longrightarrow>
   reconnectAttempts s + length es \<le> maxReconnectAttempts s \<Longrightarrow>
   \<not> isConnected (run (failures es) s) \<and> socket (run (failures es) s) \<and>
   reconnectAttempts (run (failures es) s) = reconnectAttempts s + length es \<and>
   maxReconnectAttempts (run (failures es) s) = maxReconnectAttempts s \<and>
   pendingReconnects (run (failures es) s) = pendingReconnects s \<and>
   (\<exists>tr. trace (run (failures es) s) = trace s @ tr \<and>
         dispatched ''reconnect_failed'' tr = 0 \<and> intervals_set tr = 0 \<and>
         length (timeouts_set tr) = length es)"
proof (induction es arbitrary: s)
  case Nil
  then show ?case by (simp add: failures_def)
next
  case (Cons ee es)
  let ?s1 = "run (failure_round ee) s"
  have lt: "reconnectAttempts s < maxReconnectAttempts s" using Cons.prems by simp
  note r = failure_round_step [OF lt Cons.prems(1) Cons.prems(2), of ee]
  have p: "\<not> isConnected ?s1" "socket ?s1"
    "reconnectAttempts ?s1 + length es \<le> maxReconnectAttempts ?s1"
    using Cons.prems by (simp_all add: r)
  from Cons.IH [OF p] obtain tr where
    i: "\<not> isConnected (run (failures es) ?s1)" "socket (run (failures es) ?s1)"
       "reconnectAttempts (run (failures es) ?s1) = reconnectAttempts ?s1 + length es"
       "maxReconnectAttempts (run (failures es) ?s1) = maxReconnectAttempts ?s1"
       "pendingReconnects (run (failures es) ?s1) = pendingReconnects ?s1"
       "trace (run (failures es) ?s1) = trace ?s1 @ tr"
       "dispatched ''reconnect_failed'' tr = 0" "intervals_set tr = 0"
       "length (timeouts_set tr) = length es"
    by blast
  have e: "run (failures (ee # es)) s = run (failures es) ?s1"
    by (simp add: failures_def run_append)
  have t: "\<exists>tr'. trace (run (failures es) ?s1) = trace s @ tr' \<and>
         dispatched ''reconnect_failed'' tr' = 0 \<and> intervals_set tr' = 0 \<and>
         length (timeouts_set tr') = length (ee # es)"
    using i(6-9) by (simp add: r)
  show ?case
    unfolding e using i(1-5) t by (simp add: r)
qed

lemma exhausted_after_failures:
  assumes "reconnectAttempts s = 0" "\<not> isConnected s" "socket s"
    "length es = maxReconnectAttempts s"
  shows "\<exists>tr. trace (step (e, OnConnectError x) (run (failures es) s)) = trace s @ tr \<and>
           dispatched ''reconnect_failed'' tr = 1 \<and> intervals_set tr = 1 \<and>
           length (timeouts_set tr) = maxReconnectAttempts s"
    and "pendingReconnects (step (e, OnConnectError x) (run (failures es) s)) = pendingReconnects s"
    and "reconnectAttempts (step (e, OnConnectError x) (run (failures es) s)) = maxReconnectAttempts s"
    and "maxReconnectAttempts (step (e, OnConnectError x) (run (failures es) s)) = maxReconnectAttempts s"
    and "\<not> isConnected (step (e, OnConnectError x) (run (failures es) s))"
    and "socket (step (e, OnConnectError x) (run (failures es) s))"
proof -
  let ?s1 = "run (failures es) s"
  have le: "reconnectAttempts s + length es \<le> maxReconnectAttempts s" using assms by simp
  from failures_invariant [OF assms(2) assms(3) le] obtain tr where
    i: "\<not> isConnected ?s1" "socket ?s1"
       "reconnectAttempts ?s1 = reconnectAttempts s + length es"
       "maxReconnectAttempts ?s1 = maxReconnectAttempts s"
       "pendingReconnects ?s1 = pendingReconnects s"
       "trace ?s1 = trace s @ tr"
       "dispatched ''reconnect_failed'' tr = 0" "intervals_set tr = 0"
       "length (timeouts_set tr) = length es"
    by blast
  have g: "maxReconnectAttempts ?s1 \<le> reconnectAttempts ?s1" using i assms by simp
  note c = connect_error_give_up [OF g, of e x]
  show "\<exists>tr. trace (step (e, OnConnectError x) ?s1) = trace s @ tr \<and>
           dispatched ''reconnect_failed'' tr = 1 \<and> intervals_set tr = 1 \<and>
           length (timeouts_set tr) = maxReconnectAttempts s"
    using i(6-9) assms(4) by (simp add: c)
  show "pendingReconnects (step (e, OnConnectError x) ?s1) = pendingReconnects s"
    using i(5) by (simp add: c)
  show "reconnectAttempts (step (e, OnConnectError x) ?s1) = maxReconnectAttempts s"
    using i(3) assms by (simp add: c)
  show "maxReconnectAttempts (step (e, OnConnectError x) ?s1) = maxReconnectAttempts s"
    using i(4) by (simp add: c)
  show "\<not> isConnected (step (e, OnConnectError x) ?s1)" using i(1) by (simp add: c)
  show "socket (step (e, OnConnectError x) ?s1)" using i(2) by (simp add: c)
qed

text \<open>
  Claim C2 as stated fails: after ten failed attempts and the fallback, the browser comes
  online (which makes the manager try once more) and the transport reports one more connect
  error. \<^verbatim>\<open>reconnect_failed\<close> has then been dispatched twice and two intervals set.
\<close>
theorem fallback_repeats_counterexample:
  "reconnectAttempts exhausted = 10 \<and>
   dispatched ''reconnect_failed''
     (trace (run [(quiet, Online), (quiet, OnConnectError ''timeout'')] exhausted)) = 2 \<and>
   intervals_set (trace (run [(quiet, Online), (quiet, OnConnectError ''timeout'')] exhausted)) = 2"
proof -
  have h: "reconnectAttempts started = 0" "\<not> isConnected started" "socket started"
    "length (replicate 10 (quiet, quiet)) = maxReconnectAttempts started"
    by simp_all
  note x = exhausted_after_failures [OF h, of quiet "''timeout''", folded exhausted_def]
  from x(1) obtain tr where
    t: "trace exhausted = trace started @ tr" "dispatched ''reconnect_failed'' tr = 1"
       "intervals_set tr = 1"
    by blast
  let ?s1 = "step (quiet, Online) exhausted"
  have o: "?s1 =
     exhausted\<lparr>reconnectAttempts := reconnectAttempts exhausted + 1,
       trace := trace exhausted @ [ConsoleLog BrowserOnline,
                  ConsoleLog (ReconnectionAttempt (reconnectAttempts exhausted + 1)
                                (maxReconnectAttempts exhausted)),
                  Transport SocketConnect]\<rparr>"
    using x(5) x(6) by (rule online_retries)
  have g: "maxReconnectAttempts ?s1 \<le> reconnectAttempts ?s1"
    using x(3) x(4) by (simp add: o)
  obtain q where
    q: "trace (step (quiet, OnConnectError ''timeout'') ?s1) = trace ?s1 @ q"
       "dispatched ''reconnect_failed'' q = 1" "intervals_set q = 1"
    by (simp add: connect_error_give_up [OF g])
  have "trace ?s1 = trace started @ tr @
            [ConsoleLog BrowserOnline,
             ConsoleLog (ReconnectionAttempt (reconnectAttempts exhausted + 1)
                           (maxReconnectAttempts exhausted)),
             Transport SocketConnect]"
    by (simp add: o t(1))
  then show ?thesis
    using x(3) t(2) t(3) q started_quiet_trace by simp
qed

text \<open>
  Claim C2, amended. When a manager that has not yet retried sees as many failed attempts as
  its maximum allows (a connect error, then the reconnect timeout firing, each time) and
  then one more connect error, then over that whole run \<^verbatim>\<open>reconnect_failed\<close> is
  dispatched once and one interval is set, one reconnect timeout was set per attempt, and
  none is left pending. Nothing latches this: every run of \<^verbatim>\<open>scheduleReconnect\<close> on a
  manager whose attempts have reached the maximum dispatches \<^verbatim>\<open>reconnect_failed\<close> once
  and sets one interval, again.
\<close>
theorem fallback_once_after_failures:
  assumes "reconnectAttempts s = 0" "\<not> isConnected s" "socket s"
    "length es = maxReconnectAttempts s"
  shows
   "dispatched ''reconnect_failed'' (added s (step (e, OnConnectError x) (run (failures es) s))) = 1 \<and>
    intervals_set (added s (step (e, OnConnectError x) (run (failures es) s))) = 1 \<and>
    length (timeouts_set (added s (step (e, OnConnectError x) (run (failures es) s)))) =
      maxReconnectAttempts s \<and>
    pendingReconnects (step (e, OnConnectError x) (run (failures es) s)) = pendingReconnects s \<and>
    (maxReconnectAttempts s' \<le> reconnectAttempts s' \<longrightarrow>
       dispatched ''reconnect_failed'' (added s' (snd (scheduleReconnect e' s'))) = 1 \<and>
       intervals_set (added s' (snd (scheduleReconnect e' s'))) = 1 \<and>
       timeouts_set (added s' (snd (scheduleReconnect e' s'))) = [])"
proof -
  from exhausted_after_failures(1) [OF assms, of e x] obtain tr where
    t: "trace (step (e, OnConnectError x) (run (failures es) s)) = trace s @ tr"
       "dispatched ''reconnect_failed'' tr = 1" "intervals_set tr = 1"
       "length (timeouts_set tr) = maxReconnectAttempts s"
    by blast
  have a: "added s (step (e, OnConnectError x) (run (failures es) s)) = tr"
    by (simp add: added_def t(1))
  show ?thesis
    using t(2-4) exhausted_after_failures(2) [OF assms, of e x] give_up_counts [of s' e']
    by (simp add: a)
qed

theorem fallback_once_after_failures_witness:
  "dispatched ''reconnect_failed'' (trace exhausted) = 1 \<and>
   intervals_set (trace exhausted) = 1 \<and>
   pendingReconnects exhausted = 0 \<and>
   maxReconnectAttempts exhausted \<le> reconnectAttempts exhausted \<and>
   dispatched ''reconnect_failed'' (added exhausted (snd (scheduleReconnect quiet exhausted))) = 1 \<and>
   intervals_set (added exhausted (snd (scheduleReconnect quiet exhausted))) = 1"
proof -
  have h: "reconnectAttempts started = 0" "\<not> isConnected started" "socket started"
    "length (replicate 10 (quiet, quiet)) = maxReconnectAttempts started"
    by simp_all
  note x = exhausted_after_failures [OF h, of quiet "''timeout''", folded exhausted_def]
  have m: "maxReconnectAttempts exhausted \<le> reconnectAttempts exhausted"
    using x(3) x(4) by simp
  from x(1) have s: "trace exhausted = trace started @ added started exhausted"
    by (auto simp: added_def)
  note f = fallback_once_after_failures [OF h, of quiet "''timeout''" exhausted quiet,
      folded exhausted_def]
  have "dispatched ''reconnect_failed'' (trace started @ added started exhausted) = 1 \<and>
        intervals_set (trace started @ added started exhausted) = 1"
    using f started_quiet_trace by simp
  then have "dispatched ''reconnect_failed'' (trace exhausted) = 1 \<and>
        intervals_set (trace exhausted) = 1"
    by (simp only: s [symmetric])
  then show ?thesis using f m by simp
qed

subsection \<open>C3: exceptions of a reconnect attempt\<close>

text \<open>
  Claim C3 as stated fails: on a manager that has its transport and is not connected,
  \<^verbatim>\<open>attemptReconnect\<close> calls the transport's \<^verbatim>\<open>connect()\<close> outside any
  \<^verbatim>\<open>try\<close>, and an exception thrown there leaves \<^verbatim>\<open>attemptReconnect\<close>.
\<close>
theorem attemptReconnect_counterexample:
  "fst (attemptReconnect connect_throws started) = Raised TransportThrew"
  by (simp add: attemptReconnect_eq connect_throws_def)

text \<open>
  Claim C3, amended. In every state and environment, an exception leaves
  \<^verbatim>\<open>attemptReconnect\<close> exactly when the manager is not connected, has its transport, and
  that transport's \<^verbatim>\<open>connect()\<close> throws: that call is made outside any \<^verbatim>\<open>try\<close>.
  \<^verbatim>\<open>connect\<close>, to which it delegates when there is no transport yet, always returns
  normally: an exception of \<^verbatim>\<open>io(...)\<close> or of the registration of a transport handler is
  caught there and surfaced by one dispatch of \<^verbatim>\<open>connection_error\<close>, which is dispatched
  in no other case. An exception of a callback is not surfaced by an event: it is caught in
  \<^verbatim>\<open>triggerEvent\<close> and leaves one line on the error console for each call that threw.
\<close>
theorem attemptReconnect_raises_only_from_transport_connect:
  "fst (attemptReconnect e s) =
     (if \<not> isConnected s \<and> socket s \<and> transport_throws e SocketConnect
      then Raised TransportThrew else Normal) \<and>
   fst (connect e s) = Normal \<and>
   dispatched ''connection_error'' (added s (snd (attemptReconnect e s))) =
     (if \<not> isConnected s \<and> \<not> socket s \<and> connect_fails e then 1 else 0) \<and>
   length (callback_errors (added s (snd (attemptReconnect e s)))) =
     length (threw e (added s (snd (attemptReconnect e s))))"
proof -
  have a: "fst (attemptReconnect e s) =
     (if \<not> isConnected s \<and> socket s \<and> transport_throws e SocketConnect
      then Raised TransportThrew else Normal)"
    by (simp add: attemptReconnect_eq connect_returns)
  have b: "dispatched ''connection_error'' (added s (snd (attemptReconnect e s))) =
     (if \<not> isConnected s \<and> \<not> socket s \<and> connect_fails e then 1 else 0) \<and>
   length (callback_errors (added s (snd (attemptReconnect e s)))) =
     length (threw e (added s (snd (attemptReconnect e s))))"
  proof (cases "isConnected s \<or> socket s")
    case True
    then show ?thesis by (auto simp: attemptReconnect_eq added_def)
  next
    case False
    let ?s1 = "s\<lparr>reconnectAttempts := reconnectAttempts s + 1,
              trace := trace s @ [ConsoleLog (ReconnectionAttempt (reconnectAttempts s + 1)
                                              (maxReconnectAttempts s))]\<rparr>"
    from connect_appends [of e ?s1] obtain q where
      q: "trace (snd (connect e ?s1)) = trace ?s1 @ q"
         "dispatched ''connection_error'' q = (if connect_fails e then 1 else 0)"
         "length (callback_errors q) = length (threw e q)"
      by blast
    have "attemptReconnect e s = connect e ?s1"
      using False by (simp add: attemptReconnect_eq)
    then show ?thesis using False q by (simp add: added_def)
  qed
  show ?thesis using a b connect_returns by blast
qed

theorem attemptReconnect_raises_only_from_transport_connect_witness:
  "fst (attemptReconnect io_throws fresh) = Normal \<and>
   dispatched ''connection_error'' (added fresh (snd (attemptReconnect io_throws fresh))) = 1 \<and>
   fst (attemptReconnect registration_throws fresh) = Normal \<and>
   dispatched ''connection_error'' (added fresh (snd (attemptReconnect registration_throws fresh))) = 1 \<and>
   dispatched ''connection_error'' (added fresh (snd (attemptReconnect quiet fresh))) = 0"
proof -
  have i: "connect_fails io_throws" "connect_fails registration_throws" "\<not> connect_fails quiet"
    by (simp_all add: connect_fails_def io_throws_def registration_throws_def socket_events_def)
  have t: "\<not> transport_throws io_throws SocketConnect"
    "\<not> transport_throws registration_throws SocketConnect"
    by (simp_all add: io_throws_def registration_throws_def)
  show ?thesis
    using attemptReconnect_raises_only_from_transport_connect [of io_throws fresh]
      attemptReconnect_raises_only_from_transport_connect [of registration_throws fresh]
      attemptReconnect_raises_only_from_transport_connect [of quiet fresh] i t
    by simp
qed

subsection \<open>C4: dispatch to the registered callbacks\<close>




subsection \<open>C5: unregistering a callback\<close>

lemma indexOf_first: "x \<notin> set pre \<Longrightarrow> indexOf (pre @ x # post) x = int (length pre)"
  by (induction pre) (auto simp: Let_def)

lemma indexOf_absent: "x \<notin> set xs \<Longrightarrow> indexOf xs x = - 1"
  by (induction xs) (auto simp: Let_def)

text \<open>
  Claim C5. When the callback is registered for the event, \<^verbatim>\<open>off\<close> removes its first
  instance in the list and nothing else: the callbacks before it and after it, later
  instances among them, stay in their order (so one instance fewer is left), and no other
  event and no other field changes. When the callback is not registered for the event, the
  manager is unchanged.
\<close>

theorem off_removes_first_instance:
  "(eventCallbacks s event = Some (pre @ cb # post) \<and> cb \<notin> set pre \<longrightarrow>
      off event cb s = s\<lparr>eventCallbacks := (eventCallbacks s)(event \<mapsto> pre @ post)\<rparr> \<and>
      count_list (pre @ post) cb + 1 = count_list (pre @ cb # post) cb) \<and>
   (cb \<notin> set (registered s event) \<longrightarrow> off event cb s = s)"
  by (auto simp: off_def indexOf_first indexOf_absent splice1_def registered_def Let_def split: option.splits)

theorem off_removes_first_instance_witness:
  "registered twice ''x'' = [2, 1, 3, 1] \<and>
   registered (off ''x'' 1 twice) ''x'' = [2, 3, 1] \<and>
   registered (off ''x'' 1 twice) ''y'' = [] \<and>
   off ''x'' 7 twice = twice"
proof -
  have r: "eventCallbacks twice ''x'' = Some ([2] @ 1 # [3, 1])"
    by (simp add: twice_def on_def fresh_def)
  have a: "(1::nat) \<notin> set [2]" by simp
  have n: "(7::nat) \<notin> set (registered twice ''x'')"
    by (simp add: registered_def r)
  have y: "eventCallbacks twice ''y'' = None"
    by (simp add: twice_def on_def fresh_def)
  from off_removes_first_instance [of twice "''x''" "[2]" 1 "[3, 1]"] r a
  have "off ''x'' 1 twice = twice\<lparr>eventCallbacks := (eventCallbacks twice)(''x'' \<mapsto> [2] @ [3, 1])\<rparr>"
    by blast
  moreover from off_removes_first_instance [of twice "''x''" pre 7 post] n
  have "off ''x'' 7 twice = twice" by blast
  ultimately show ?thesis using r y by (simp add: registered_def)
qed

subsection \<open>C6: the transport disconnected\<close>

text \<open>
  Claim C6 as stated fails: on a manager whose attempts have reached the maximum, a
  disconnect for another reason than the local close schedules no retry. No reconnect
  timeout is set and none is pending afterwards.
\<close>
theorem handleDisconnect_counterexample:
  "maxReconnectAttempts fallen_back \<le> reconnectAttempts fallen_back \<and>
   ''transport close'' \<noteq> ''io client disconnect'' \<and>
   timeouts_set (added fallen_back (snd (handleDisconnect quiet ''transport close'' fallen_back))) = [] \<and>
   pendingReconnects (snd (handleDisconnect quiet ''transport close'' fallen_back)) = 0"
  by (simp add: handleDisconnect_other scheduleReconnect_give_up added_def fallen_back_eq)

text \<open>
  Claim C6, amended. When the reason of the disconnect is \<^verbatim>\<open>io client disconnect\<close>,
  \<^verbatim>\<open>scheduleReconnect\<close> does not run: no reconnect timeout is set, the transport is
  not called, and the pending timeouts and the attempt counter are as before. For every other
  reason \<^verbatim>\<open>scheduleReconnect\<close> runs, once, on the manager as the dispatch of
  \<^verbatim>\<open>connection_change\<close> left it. While the attempts are below the maximum it schedules a
  retry: one reconnect timeout, with the delay of the backoff, and no fallback. Once the
  attempts have reached the maximum it schedules none: no timeout is set, and
  \<^verbatim>\<open>reconnect_failed\<close> is dispatched once and one polling interval set instead. In every
  case the manager is left disconnected and \<^verbatim>\<open>connection_change\<close> is dispatched once.
  The method \<^verbatim>\<open>disconnect\<close> itself schedules nothing.
\<close>
theorem handleDisconnect_reconnects_unless_local:
  "(reason = ''io client disconnect'' \<longrightarrow>
      schedule_logs (added s (snd (handleDisconnect e reason s))) = [] \<and>
      timeouts_set (added s (snd (handleDisconnect e reason s))) = [] \<and>
      transport_calls (added s (snd (handleDisconnect e reason s))) = [] \<and>
      intervals_set (added s (snd (handleDisconnect e reason s))) = 0 \<and>
      pendingReconnects (snd (handleDisconnect e reason s)) = pendingReconnects s \<and>
      reconnectAttempts (snd (handleDisconnect e reason s)) = reconnectAttempts s) \<and>
   (reason \<noteq> ''io client disconnect'' \<longrightarrow>
      length (schedule_logs (added s (snd (handleDisconnect e reason s)))) = 1 \<and>
      scheduleReconnect e
        (s\<lparr>isConnected := False,
           trace := trace s @ dispatch_effects e (eventCallbacks s) ''connection_change''
                      (ConnectionChange False (Some reason)),
           eventCallbacks := registry_after e (eventCallbacks s) ''connection_change''
                      (ConnectionChange False (Some reason))\<rparr>) =
        handleDisconnect e reason s \<and>
      (reconnectAttempts s < maxReconnectAttempts s \<longrightarrow>
         timeouts_set (added s (snd (handleDisconnect e reason s))) = [calculateReconnectDelay e s] \<and>
         pendingReconnects (snd (handleDisconnect e reason s)) = pendingReconnects s + 1 \<and>
         dispatched ''reconnect_failed'' (added s (snd (handleDisconnect e reason s))) = 0 \<and>
         intervals_set (added s (snd (handleDisconnect e reason s))) = 0) \<and>
      (maxReconnectAttempts s \<le> reconnectAttempts s \<longrightarrow>
         timeouts_set (added s (snd (handleDisconnect e reason s))) = [] \<and>
         pendingReconnects (snd (handleDisconnect e reason s)) = pendingReconnects s \<and>
         dispatched ''reconnect_failed'' (added s (snd (handleDisconnect e reason s))) = 1 \<and>
         intervals_set (added s (snd (handleDisconnect e reason s))) = 1)) \<and>
   \<not> isConnected (snd (handleDisconnect e reason s)) \<and>
   dispatched ''connection_change'' (added s (snd (handleDisconnect e reason s))) = 1 \<and>
   timeouts_set (added s (snd (disconnect e s))) = [] \<and>
   schedule_logs (added s (snd (disconnect e s))) = []"
proof -
  have d: "timeouts_set (added s (snd (disconnect e s))) = [] \<and>
           schedule_logs (added s (snd (disconnect e s))) = []"
    by (simp add: disconnect_def seq_def call_transport_def assign_def record_effect_def added_def)
  show ?thesis
  proof (cases "reason = ''io client disconnect''")
    case True
    then show ?thesis using d by (simp add: handleDisconnect_local added_def)
  next
    case False
    show ?thesis
    proof (cases "reconnectAttempts s < maxReconnectAttempts s")
      case True
      then show ?thesis using False d
        by (simp add: handleDisconnect_other scheduleReconnect_retry added_def)
    next
      case False
      then show ?thesis using \<open>reason \<noteq> ''io client disconnect''\<close> d
        by (simp add: handleDisconnect_other scheduleReconnect_give_up added_def)
    qed
  qed
qed

theorem handleDisconnect_reconnects_unless_local_witness:
  "timeouts_set (added connected_manager
      (snd (handleDisconnect quiet ''io client disconnect'' connected_manager))) = [] \<and>
   schedule_logs (added connected_manager
      (snd (handleDisconnect quiet ''io client disconnect'' connected_manager))) = [] \<and>
   timeouts_set (added connected_manager
      (snd (handleDisconnect quiet ''transport close'' connected_manager))) = [1000] \<and>
   pendingReconnects (snd (handleDisconnect quiet ''transport close'' connected_manager)) = 1 \<and>
   dispatched ''reconnect_failed''
     (added fallen_back (snd (handleDisconnect quiet ''transport close'' fallen_back))) = 1 \<and>
   intervals_set
     (added fallen_back (snd (handleDisconnect quiet ''transport close'' fallen_back))) = 1"
proof -
  have a: "reconnectAttempts connected_manager < maxReconnectAttempts connected_manager"
    by (simp add: connected_manager_eq)
  have d: "calculateReconnectDelay quiet connected_manager = 1000"
    by (simp add: connected_manager_eq calculateReconnectDelay_def)
  have p: "pendingReconnects connected_manager = 0"
    by (simp add: connected_manager_eq)
  have n: "''transport close'' \<noteq> ''io client disconnect''" by simp
  have m: "maxReconnectAttempts fallen_back \<le> reconnectAttempts fallen_back"
    by (simp add: fallen_back_eq)
  show ?thesis
    using handleDisconnect_reconnects_unless_local [of "''io client disconnect''" connected_manager quiet]
      handleDisconnect_reconnects_unless_local [of "''transport close''" connected_manager quiet]
      handleDisconnect_reconnects_unless_local [of "''transport close''" fallen_back quiet]
      a d p n m
    by simp
qed

subsection \<open>C7: the transport connected\<close>

text \<open>
  Claim C7. The handler of the transport's connect event, on a manager that has its
  transport, leaves the attempt counter at 0 and the manager connected, dispatches
  \<^verbatim>\<open>connection_change\<close> once, every callback called in it receiving
  \<^verbatim>\<open>{connected: true}\<close>, and makes one call of the transport: the emit of
  \<^verbatim>\<open>get_initial_data\<close>. Every callback registered for \<^verbatim>\<open>connection_change\<close> is called,
  in order, provided that none of them unregisters a subscriber of that event during the
  dispatch.
\<close>
theorem handleConnect_resets_and_requests:
  "socket s \<Longrightarrow>
     reconnectAttempts (step (e, OnConnect) s) = 0 \<and>
     isConnected (step (e, OnConnect) s) \<and>
     dispatched ''connection_change'' (added s (step (e, OnConnect) s)) = 1 \<and>
     list_all (\<lambda>c. snd c = ConnectionChange True None) (invoked (added s (step (e, OnConnect) s))) \<and>
     (list_all (keeps e ''connection_change'' (ConnectionChange True None))
        (registered s ''connection_change'') \<longrightarrow>
      invoked (added s (step (e, OnConnect) s)) =
        map (\<lambda>cb. (cb, ConnectionChange True None)) (registered s ''connection_change'')) \<and>
     transport_calls (added s (step (e, OnConnect) s)) = [SocketEmit ''get_initial_data'' Undefined]"
  by (simp add: step_def seq_def perform_def record_effect_def handleConnect_eq added_def
      dispatch_visits_registered)

theorem handleConnect_resets_and_requests_witness:
  "socket retrying \<and> reconnectAttempts retrying = 3 \<and>
   reconnectAttempts (step (quiet, OnConnect) retrying) = 0 \<and>
   isConnected (step (quiet, OnConnect) retrying) \<and>
   dispatched ''connection_change'' (added retrying (step (quiet, OnConnect) retrying)) = 1 \<and>
   invoked (added retrying (step (quiet, OnConnect) retrying)) = [(5, ConnectionChange True None)] \<and>
   transport_calls (added retrying (step (quiet, OnConnect) retrying)) =
     [SocketEmit ''get_initial_data'' Undefined]"
proof -
  have s: "socket retrying" by (simp add: retrying_def)
  have r: "registered retrying ''connection_change'' = [5]"
    by (simp add: retrying_def registered_on)
  have n: "reconnectAttempts retrying = 3" by (simp add: retrying_def)
  have k: "list_all (keeps quiet ''connection_change'' (ConnectionChange True None))
        (registered retrying ''connection_change'')"
    by (simp add: r)
  show ?thesis
    using handleConnect_resets_and_requests [OF s, of quiet] s r n k by simp
qed

subsection \<open>C8: polling\<close>

text \<open>
  Claim C8 as stated fails: while the manager polls, the transport connects and
  disconnects again before the next tick of the interval. Nothing was cancelled: the
  interval is still active, and its next tick fetches \<^verbatim>\<open>/api/poll\<close>.
\<close>
theorem polling_survives_counterexample:
  "activeIntervals fallen_back = [1] \<and>
   isConnected (step (quiet, OnConnect) fallen_back) \<and>
   1 \<in> set (activeIntervals (run brief_connection fallen_back)) \<and>
   fetches (added (run brief_connection fallen_back)
              (step (quiet, PollTimer 1 FetchRejected) (run brief_connection fallen_back))) =
     [''/api/poll'']"
proof -
  let ?s1 = "step (quiet, OnConnect) fallen_back"
  let ?s2 = "step (quiet, OnDisconnect ''transport close'') ?s1"
  have k: "socket fallen_back" and a: "activeIntervals fallen_back = [1]"
    by (simp_all add: fallen_back_eq)
  have s1: "isConnected ?s1" "activeIntervals ?s1 = [1]" "reconnectAttempts ?s1 = 0"
    "maxReconnectAttempts ?s1 = 10"
    using k by (simp_all add: step_def seq_def perform_def record_effect_def handleConnect_eq
        fallen_back_eq)
  have "?s2 = snd (handleDisconnect quiet ''transport close''
                    (?s1\<lparr>trace := trace ?s1 @ [ConsoleLog (SocketDisconnected ''transport close'')]\<rparr>))"
    by (simp add: step_def [of "(quiet, OnDisconnect ''transport close'')"] seq_def perform_def
        record_effect_def)
  then have s2: "\<not> isConnected ?s2" "activeIntervals ?s2 = [1]"
    using s1 by (simp_all add: handleDisconnect_other scheduleReconnect_retry)
  have r: "run brief_connection fallen_back = ?s2"
    by (simp add: brief_connection_def)
  show ?thesis
    using a s1 s2 by (simp add: r pollTick_eq observe_poll_effects added_def)
qed

text \<open>
  Claim C8, amended. \<^verbatim>\<open>setupPollingFallback\<close> sets one interval, of 5000 ms, and leaves
  the attempt counter alone. A tick of that interval never changes the attempt counter,
  whatever the fetch gives. While the manager is not connected, a tick fetches
  \<^verbatim>\<open>/api/poll\<close> once and dispatches \<^verbatim>\<open>polling_update\<close> exactly when the fetch
  succeeded, the callbacks receiving the data (all the registered ones, provided none of
  them unregisters a subscriber of that event during the dispatch); the interval stays
  active. The connect event of the transport cancels nothing: it leaves the intervals as
  they are. Polling is cancelled by the next tick that finds the manager connected: that
  tick fetches nothing and clears the interval, after which it ticks no more.
\<close>
theorem polling_fallback_behaviour:
  "intervals_set (added s (snd (setupPollingFallback e s))) = 1 \<and>
   last (added s (snd (setupPollingFallback e s))) = SetInterval (nextTimerId s) 5000 \<and>
   activeIntervals (snd (setupPollingFallback e s)) = activeIntervals s @ [nextTimerId s] \<and>
   reconnectAttempts (snd (setupPollingFallback e s)) = reconnectAttempts s \<and>
   reconnectAttempts (step (e, PollTimer i r) s) = reconnectAttempts s \<and>
   activeIntervals (step (e, OnConnect) s) = activeIntervals s \<and>
   (i \<in> set (activeIntervals s) \<and> \<not> isConnected s \<longrightarrow>
      fetches (added s (step (e, PollTimer i r) s)) = [''/api/poll''] \<and>
      dispatched ''polling_update'' (added s (step (e, PollTimer i r) s)) =
        (if poll_succeeded r then 1 else 0) \<and>
      list_all (\<lambda>c. snd c = Json data)
        (invoked (added s (step (e, PollTimer i (FetchResolved True (Some data))) s))) \<and>
      (list_all (keeps e ''polling_update'' (Json data)) (registered s ''polling_update'') \<longrightarrow>
         invoked (added s (step (e, PollTimer i (FetchResolved True (Some data))) s)) =
           map (\<lambda>cb. (cb, Json data)) (registered s ''polling_update'')) \<and>
      activeIntervals (step (e, PollTimer i r) s) = activeIntervals s) \<and>
   (i \<in> set (activeIntervals s) \<and> isConnected s \<longrightarrow>
      added s (step (e, PollTimer i r) s) = [ClearInterval i] \<and>
      i \<notin> set (activeIntervals (step (e, PollTimer i r) s)) \<and>
      step (e', PollTimer i r') (step (e, PollTimer i r) s) = step (e, PollTimer i r) s)"
proof -
  have c: "activeIntervals (step (e, OnConnect) s) = activeIntervals s"
    by (simp add: step_def handleConnect_def seq_def perform_def assign_def record_effect_def
        triggerEvent_eq on_socket_def call_transport_def)
  have p: "invoked (poll_effects e (eventCallbacks s) (FetchResolved True (Some data))) =
             map (\<lambda>cb. (cb, Json data)) (registered s ''polling_update'')"
    if "list_all (keeps e ''polling_update'' (Json data)) (registered s ''polling_update'')"
    using that by (simp add: poll_effects_def dispatch_visits_registered)
  have q: "list_all (\<lambda>c. snd c = Json data)
             (invoked (poll_effects e (eventCallbacks s) (FetchResolved True (Some data))))"
    by (simp add: poll_effects_def)
  show ?thesis
    using c p q
    by (simp add: setupPollingFallback_eq pollTick_eq added_def observe_poll_effects)
qed

theorem polling_fallback_behaviour_witness:
  "activeIntervals fallen_back = [1] \<and> \<not> isConnected fallen_back \<and>
   fetches (added fallen_back (step (quiet, PollTimer 1 (FetchResolved True (Some ''{}''))) fallen_back)) =
     [''/api/poll''] \<and>
   dispatched ''polling_update''
     (added fallen_back (step (quiet, PollTimer 1 (FetchResolved True (Some ''{}''))) fallen_back)) = 1 \<and>
   isConnected (step (quiet, OnConnect) fallen_back) \<and>
   added (step (quiet, OnConnect) fallen_back)
     (step (quiet, PollTimer 1 FetchRejected) (step (quiet, OnConnect) fallen_back)) = [ClearInterval 1] \<and>
   activeIntervals (step (quiet, PollTimer 1 FetchRejected) (step (quiet, OnConnect) fallen_back)) = []"
proof -
  have a: "activeIntervals fallen_back = [1]" and c: "\<not> isConnected fallen_back"
    and k: "socket fallen_back"
    by (simp_all add: fallen_back_eq)
  have i: "1 \<in> set (activeIntervals fallen_back) \<and> \<not> isConnected fallen_back"
    using a c by simp
  have j: "1 \<in> set (activeIntervals (step (quiet, OnConnect) fallen_back)) \<and>
           isConnected (step (quiet, OnConnect) fallen_back)"
    using a k by (simp add: step_def seq_def perform_def record_effect_def handleConnect_eq)
  have l: "activeIntervals (step (quiet, OnConnect) fallen_back) = [1]"
    using a k by (simp add: step_def seq_def perform_def record_effect_def handleConnect_eq)
  have p: "poll_succeeded (FetchResolved True (Some ''{}''))"
    by (simp add: poll_succeeded_def)
  have t: "activeIntervals (step (quiet, PollTimer 1 FetchRejected) (step (quiet, OnConnect) fallen_back)) = []"
    using j l by (simp add: pollTick_eq)
  show ?thesis
    using polling_fallback_behaviour [of fallen_back quiet 1 "FetchResolved True (Some ''{}'')"] i
      polling_fallback_behaviour [of "step (quiet, OnConnect) fallen_back" quiet 1 FetchRejected] j a c p t
    by simp
qed

subsection \<open>C9: sending\<close>

text \<open>
  Claim C9. Unless the manager is connected and has a transport, \<^verbatim>\<open>emit\<close> returns
  normally and leaves the manager, its trace included, as it was: nothing is sent and
  nothing is raised. When it is connected and has a transport, the one thing it does is the
  transport's \<^verbatim>\<open>emit\<close> with the event name and the payload.
\<close>
theorem emit_only_when_connected:
  "(\<not> (isConnected s \<and> socket s) \<longrightarrow> emit e event d s = (Normal, s)) \<and>
   (isConnected s \<and> socket s \<longrightarrow>
      snd (emit e event d s) = s\<lparr>trace := trace s @ [Transport (SocketEmit event d)]\<rparr>)"
  by (simp add: emit_def call_transport_def record_effect_def)

theorem emit_only_when_connected_witness:
  "emit quiet ''ping'' Undefined fresh = (Normal, fresh) \<and>
   transport_calls (added connected_manager (snd (emit quiet ''ping'' (Json ''1'') connected_manager))) =
     [SocketEmit ''ping'' (Json ''1'')]"
proof -
  have "\<not> (isConnected fresh \<and> socket fresh)" by simp
  with emit_only_when_connected [of fresh quiet "''ping''" Undefined]
  have a: "emit quiet ''ping'' Undefined fresh = (Normal, fresh)" by blast
  have "isConnected connected_manager \<and> socket connected_manager"
    by (simp add: connected_manager_sel)
  with emit_only_when_connected [of connected_manager quiet "''ping''" "Json ''1''"]
  have "snd (emit quiet ''ping'' (Json ''1'') connected_manager) =
     connected_manager\<lparr>trace := trace connected_manager @ [Transport (SocketEmit ''ping'' (Json ''1''))]\<rparr>"
    by blast
  then show ?thesis using a by (simp add: transport_calls_def)
qed

subsection \<open>C10: executing a command from the dashboard\<close>

lemma showNotification_eq:
  "showNotification msg type d =
     (Normal, d\<lparr>hasContainer := True,
               page := page d @ (if hasContainer d then [] else [CreateContainer]) @
                       [AppendNotification type (getNotificationIcon type) msg, RemoveAfter 5000]\<rparr>)"
  by (simp add: showNotification_def seq_def act_def assign_def)

lemma executeCommand_offline:
  "\<not> connected d \<Longrightarrow>
   executeCommand r command d =
     (Normal, d\<lparr>hasContainer := True,
               page := page d @ (if hasContainer d then [] else [CreateContainer]) @
                       [AppendNotification ''error'' (IconName ''exclamation-circle'') ''Not connected to bot'',
                        RemoveAfter 5000]\<rparr>)"
  by (simp add: executeCommand_def showNotification_eq getNotificationIcon_def)

lemma executeCommand_online:
  "connected d \<Longrightarrow>
   executeCommand r command d =
     (Normal, d\<lparr>hasContainer := True,
               page := page d @ HttpPost ''/api/execute'' command #
                 (case r of
                    FetchResolved ok (Some data) \<Rightarrow> []
                  | _ \<Rightarrow> [LogError ''Command execution failed:'']) @
                 (if hasContainer d then [] else [CreateContainer]) @
                 [case r of
                    FetchResolved ok (Some data) \<Rightarrow>
                      AppendNotification (if success data then ''success'' else ''error'')
                        (IconName (if success data then ''check-circle'' else ''exclamation-circle'')) (message data)
                  | _ \<Rightarrow> AppendNotification ''error'' (IconName ''exclamation-circle'') ''Failed to execute command'',
                  RemoveAfter 5000]\<rparr>)"
  by (simp add: executeCommand_def try_catch_def seq_def act_def throw_def showNotification_eq
      getNotificationIcon_def split: fetched.split option.split)

text \<open>
  Claim C10. For every command and every outcome of the fetch, the promise of
  \<^verbatim>\<open>executeCommand\<close> is fulfilled, never rejected. When the dashboard is not connected,
  no request is posted and the one notification shown is the error
  \<^verbatim>\<open>Not connected to bot\<close>. When it is connected, one request is posted, the command
  to \<^verbatim>\<open>/api/execute\<close>; when that fetch is rejected, the one notification shown is the
  error \<^verbatim>\<open>Failed to execute command\<close>.
\<close>
theorem executeCommand_guarded:
  "(\<not> connected d \<longrightarrow>
      fst (executeCommand r command d) = Normal \<and>
      posts (shown d (snd (executeCommand r command d))) = [] \<and>
      notifications (shown d (snd (executeCommand r command d))) =
        [(''error'', ''Not connected to bot'')]) \<and>
   (connected d \<longrightarrow>
      fst (executeCommand r command d) = Normal \<and>
      posts (shown d (snd (executeCommand r command d))) = [(''/api/execute'', command)] \<and>
      notifications (shown d (snd (executeCommand FetchRejected command d))) =
        [(''error'', ''Failed to execute command'')])"
  by (simp add: executeCommand_offline executeCommand_online shown_def posts_def notifications_def
      split: fetched.split option.split)

theorem executeCommand_guarded_witness:
  "posts (shown idle_dashboard (snd (executeCommand FetchRejected ''restart'' idle_dashboard))) = [] \<and>
   notifications (shown idle_dashboard (snd (executeCommand FetchRejected ''restart'' idle_dashboard))) =
     [(''error'', ''Not connected to bot'')] \<and>
   fst (executeCommand FetchRejected ''restart'' (idle_dashboard\<lparr>connected := True\<rparr>)) = Normal \<and>
   posts (shown (idle_dashboard\<lparr>connected := True\<rparr>)
     (snd (executeCommand FetchRejected ''restart'' (idle_dashboard\<lparr>connected := True\<rparr>)))) =
     [(''/api/execute'', ''restart'')] \<and>
   notifications (shown (idle_dashboard\<lparr>connected := True\<rparr>)
     (snd (executeCommand FetchRejected ''restart'' (idle_dashboard\<lparr>connected := True\<rparr>)))) =
     [(''error'', ''Failed to execute command'')]"
proof -
  have off: "\<not> connected idle_dashboard" by (simp add: idle_dashboard_def)
  have on: "connected (idle_dashboard\<lparr>connected := True\<rparr>)" by simp
  show ?thesis
    using executeCommand_guarded [of idle_dashboard FetchRejected "''restart''"] off
      executeCommand_guarded [of "idle_dashboard\<lparr>connected := True\<rparr>" FetchRejected "''restart''"] on
    by blast
qed

end
